theory Spec2Isabelle
  imports Main
begin

section \<open>Values, documents and responses\<close>

text \<open>
  The API routes of the task tracker (\<^verbatim>\<open>app/api/tasks/route.ts\<close>,
  \<^verbatim>\<open>app/api/categories/route.ts\<close>, \<^verbatim>\<open>app/api/categories/[id]/route.ts\<close>) are
  modelled as functions from the request and the database to a response and the database
  afterwards. A JavaScript value that may be \<^verbatim>\<open>undefined\<close> or \<^verbatim>\<open>null\<close> is an
  \<open>option\<close> (\<open>None\<close> for both: the routes only ever test such values for truthiness).
  An exception is a value of type \<open>exn\<close>; every handler body runs inside one
  \<^verbatim>\<open>try { ... } catch (error)\<close> that answers 500.
\<close>

type_synonym ObjectId = nat

datatype exn =
  ConnectionError
  | TokenError
  | BSONError
  | ValidationError string
  | DuplicateKey

text \<open>A \<^verbatim>\<open>Date\<close> object: its time value in milliseconds since the epoch, or NaN.\<close>

datatype Date = Date int | Invalid_Date

text \<open>
  What a handler depends on besides the request and the collections: the connection
  (\<^verbatim>\<open>dbConnect\<close>), the token verifier (\<^verbatim>\<open>verifyToken\<close> of \<^verbatim>\<open>lib/auth\<close>, not part of
  the sources: \<open>Inl\<close> is the exception raised when the token does not verify, at the call
  or at \<^verbatim>\<open>decoded.userId\<close>, \<open>Inr\<close> the decoded \<^verbatim>\<open>userId\<close>), the driver's
  \<^verbatim>\<open>new ObjectId(string)\<close>, which throws on a malformed string, the identifier the driver
  generates for an inserted document, the offset of local time from UTC in milliseconds, and
  the clock read by \<^verbatim>\<open>new Date()\<close>.
\<close>

record env =
  dbConnect :: "exn + unit"
  verifyToken :: "string \<Rightarrow> exn + string"
  ObjectId :: "string \<Rightarrow> exn + ObjectId"
  generatedId :: ObjectId
  LocalTZA :: int
  now :: int

text \<open>The JSON body of \<^verbatim>\<open>POST /api/tasks\<close>, as \<^verbatim>\<open>TodoForm\<close> sends it.\<close>

record task_body =
  req_title :: "string option"
  req_resume :: "string option"
  req_description :: "string option"
  req_categoryId :: "string option"
  req_priority :: "string option"
  req_dueDate :: "string option"
  req_dueTime :: "string option"

text \<open>
  A task document. \<open>task_id\<close> is \<^verbatim>\<open>_id\<close>: absent until \<^verbatim>\<open>insertOne\<close> assigns it.
\<close>

record task =
  task_id :: "ObjectId option"
  title :: "string option"
  resume :: "string option"
  description :: "string option"
  categoryId :: "string option"
  userId :: ObjectId
  dueDate :: "Date option"
  dueTime :: "string option"
  priority :: "string option"

record category_body =
  req_name :: "string option"
  req_cat_description :: "string option"

record category =
  cat_id :: "ObjectId option"
  name :: "string option"
  cat_description :: "string option"
  cat_userId :: ObjectId

record database =
  tasks :: "task list"
  categories :: "category list"

text \<open>
  The value of \<^verbatim>\<open>a && b\<close> where \<open>a\<close> is the stored \<^verbatim>\<open>dueDate\<close>: \<open>a\<close> itself when it is
  falsy (\<^verbatim>\<open>undefined\<close> or \<^verbatim>\<open>null\<close>: \<open>Nullish\<close>), else the boolean \<open>b\<close>.
\<close>

datatype overdue_value = Nullish | Boolean bool

record task_with_overdue =
  doc :: task
  overdue :: overdue_value

datatype content =
  Message string
  | Error exn
  | Tasks "task_with_overdue list"
  | Task task
  | Categories "category list"
  | Category category

record response =
  status :: nat
  success :: bool
  content :: content

definition json :: "nat \<Rightarrow> bool \<Rightarrow> content \<Rightarrow> response" where
  "json st ok c = \<lparr>status = st, success = ok, content = c\<rparr>"

text \<open>
  The \<^verbatim>\<open>catch\<close> block every handler ends with:
  \<^verbatim>\<open>{success: false, message: "Internal server error", error: error.message}\<close>, 500.
\<close>

definition internal_server_error :: "exn \<Rightarrow> response" where
  "internal_server_error e = json 500 False (Error e)"

definition no_token_provided :: response where
  "no_token_provided = json 401 False (Message ''No token provided'')"

text \<open>Truthiness of a value that is a string, \<^verbatim>\<open>undefined\<close> or \<^verbatim>\<open>null\<close>.\<close>

definition truthy :: "string option \<Rightarrow> bool" where
  "truthy v = (case v of None \<Rightarrow> False | Some s \<Rightarrow> s \<noteq> [])"

text \<open>The string that a truthy value is (and the empty string for an absent one).\<close>

definition str :: "string option \<Rightarrow> string" where
  "str v = (case v of None \<Rightarrow> [] | Some s \<Rightarrow> s)"

text \<open>\<^verbatim>\<open>v || undefined\<close> (and, in a response, \<^verbatim>\<open>v || null\<close>).\<close>

definition or_undefined :: "string option \<Rightarrow> string option" where
  "or_undefined v = (if truthy v then v else None)"

section \<open>Credential extraction and the common prologue\<close>

text \<open>
  \<^verbatim>\<open>String.prototype.split\<close> with a one-character separator: the pieces between the
  occurrences of the separator, empty pieces included; never an empty list.
\<close>

fun js_split :: "char \<Rightarrow> string \<Rightarrow> string list" where
  "js_split c [] = [[]]"
| "js_split c (x # xs) =
     (let r = js_split c xs in if x = c then [] # r else (x # hd r) # tl r)"

text \<open>
  \<^verbatim>\<open>req.headers.get("Authorization")?.split(" ")[1]\<close>: \<open>None\<close> is \<^verbatim>\<open>undefined\<close>, from a
  missing header or from a header with no space.
\<close>

definition token_of :: "string option \<Rightarrow> string option" where
  "token_of header =
     (case header of
        None \<Rightarrow> None
      | Some v \<Rightarrow> (let parts = js_split CHR '' '' v in
                   if 1 < length parts then Some (parts ! 1) else None))"

text \<open>
  Where the first statements of a handler leave it: an exception (caught by the handler's
  \<^verbatim>\<open>catch\<close>), an early \<^verbatim>\<open>return\<close> of a response, or the value it goes on with.
\<close>

datatype 'a step = Throws exn | Returns response | Yields 'a

text \<open>
  The statements all six handlers start with:
  \<^verbatim>\<open>
    const db = await dbConnect();
    const token = req.headers.get('Authorization')?.split(' ')[1];
    if (!token) return NextResponse.json({success: false, message: 'No token provided'}, {status: 401});
    const decoded = verifyToken(token);
    const userId = new ObjectId(decoded.userId);
  \<close>
\<close>

definition authenticate :: "env \<Rightarrow> string option \<Rightarrow> ObjectId step" where
  "authenticate env header =
     (case dbConnect env of
        Inl e \<Rightarrow> Throws e
      | Inr _ \<Rightarrow>
          (let token = token_of header in
           if \<not> truthy token then Returns no_token_provided
           else (case verifyToken env (str token) of
                   Inl e \<Rightarrow> Throws e
                 | Inr decoded_userId \<Rightarrow>
                     (case ObjectId env decoded_userId of
                        Inl e \<Rightarrow> Throws e
                      | Inr userId' \<Rightarrow> Yields userId'))))"

section \<open>Dates\<close>

definition msPerDay :: int where "msPerDay = 86400000"
definition msPerHour :: int where "msPerHour = 3600000"
definition msPerMinute :: int where "msPerMinute = 60000"
definition msPerSecond :: int where "msPerSecond = 1000"

definition isDigit :: "char \<Rightarrow> bool" where
  "isDigit c = (c \<in> set ''0123456789'')"

definition digitValue :: "char \<Rightarrow> int" where
  "digitValue c = int (of_char c) - 48"

definition decimal :: "string \<Rightarrow> int" where
  "decimal s = foldl (\<lambda>n c. 10 * n + digitValue c) 0 s"

text \<open>
  \<^verbatim>\<open>Number(s)\<close> on the strings the routes apply it to, the pieces of an \<^verbatim>\<open>HH:MM\<close> time:
  the empty string is 0, a string of decimal digits is its value. \<open>None\<close> is NaN. Signs,
  fractions, exponents, other radices and surrounding white space are not modelled.
\<close>

definition Number :: "string \<Rightarrow> int option" where
  "Number s = (if list_all isDigit s then Some (decimal s) else None)"

definition leapYear :: "int \<Rightarrow> bool" where
  "leapYear y = (y mod 4 = 0 \<and> (y mod 100 \<noteq> 0 \<or> y mod 400 = 0))"

definition daysInMonth :: "int \<Rightarrow> int \<Rightarrow> int" where
  "daysInMonth y m =
     (if m = 2 then (if leapYear y then 29 else 28)
      else if m = 4 \<or> m = 6 \<or> m = 9 \<or> m = 11 then 30 else 31)"

text \<open>The day number (days since 1970-01-01) of a date of the Gregorian calendar.\<close>

definition MakeDay :: "int \<Rightarrow> int \<Rightarrow> int \<Rightarrow> int" where
  "MakeDay y m d =
     (let y' = (if m \<le> 2 then y - 1 else y); mp = (m + 9) mod 12
      in 365 * y' + y' div 4 - y' div 100 + y' div 400 + (153 * mp + 2) div 5 + d - 1 - 719468)"

text \<open>
  \<^verbatim>\<open>Date.parse\<close> on the date-only form \<^verbatim>\<open>YYYY-MM-DD\<close> (what an \<^verbatim>\<open><input type="date">\<close>
  holds): midnight UTC of that day. Every other string is \<open>None\<close> here; the theorems
  below speak of a parsed date only where this function returns one.
\<close>

definition Date_parse :: "string \<Rightarrow> int option" where
  "Date_parse s =
     (if length s = 10 \<and> s ! 4 = CHR ''-'' \<and> s ! 7 = CHR ''-''
         \<and> list_all isDigit (take 4 s) \<and> list_all isDigit (take 2 (drop 5 s))
         \<and> list_all isDigit (drop 8 s)
      then (let y = decimal (take 4 s); m = decimal (take 2 (drop 5 s)); d = decimal (drop 8 s)
            in if 1 \<le> m \<and> m \<le> 12 \<and> 1 \<le> d \<and> d \<le> daysInMonth y m
               then Some (MakeDay y m d * msPerDay) else None)
      else None)"

definition new_Date :: "string \<Rightarrow> Date" where
  "new_Date s = (case Date_parse s of None \<Rightarrow> Invalid_Date | Some t \<Rightarrow> Date t)"

definition LocalTime :: "env \<Rightarrow> int \<Rightarrow> int" where
  "LocalTime env t = t + LocalTZA env"

definition UTC :: "env \<Rightarrow> int \<Rightarrow> int" where
  "UTC env t = t - LocalTZA env"

definition Day :: "int \<Rightarrow> int" where
  "Day t = t div msPerDay"

definition msFromTime :: "int \<Rightarrow> int" where
  "msFromTime t = t mod msPerSecond"

definition MakeTime :: "int \<Rightarrow> int \<Rightarrow> int \<Rightarrow> int \<Rightarrow> int" where
  "MakeTime hour minute sec ms = hour * msPerHour + minute * msPerMinute + sec * msPerSecond + ms"

definition MakeDate :: "int \<Rightarrow> int \<Rightarrow> int" where
  "MakeDate day time = day * msPerDay + time"

text \<open>
  \<^verbatim>\<open>Date.prototype.setHours(hour, min, sec)\<close>: the day of the local time of the date is
  kept, its time within the day replaced (milliseconds kept), and the result is converted
  back to UTC. A NaN argument (\<open>None\<close>, also an \<^verbatim>\<open>undefined\<close> one) or an invalid date
  gives an invalid date. The range limit of time values (\<^verbatim>\<open>TimeClip\<close>) is not modelled.
\<close>

definition setHours :: "env \<Rightarrow> int option \<Rightarrow> int option \<Rightarrow> int \<Rightarrow> Date \<Rightarrow> Date" where
  "setHours env hour minute sec date =
     (case date of
        Invalid_Date \<Rightarrow> Invalid_Date
      | Date tv \<Rightarrow>
          (case hour of
             None \<Rightarrow> Invalid_Date
           | Some h \<Rightarrow>
               (case minute of
                  None \<Rightarrow> Invalid_Date
                | Some m \<Rightarrow>
                    (let t = LocalTime env tv;
                         d = MakeDate (Day t) (MakeTime h m sec (msFromTime t))
                     in Date (UTC env d)))))"

text \<open>\<^verbatim>\<open>const [hours, minutes] = xs\<close>: a missing element is \<^verbatim>\<open>undefined\<close>.\<close>

definition element :: "int option list \<Rightarrow> nat \<Rightarrow> int option" where
  "element xs i = (if i < length xs then xs ! i else None)"

text \<open>Lines 84 to 95 of \<^verbatim>\<open>app/api/tasks/route.ts\<close>.\<close>

definition processedDueDate :: "env \<Rightarrow> string option \<Rightarrow> string option \<Rightarrow> Date option" where
  "processedDueDate env dueDate' dueTime' =
     (if truthy dueDate' then
        (let d = new_Date (str dueDate') in
         if truthy dueTime' then
           (let hm = map Number (js_split CHR '':'' (str dueTime'))
            in Some (setHours env (element hm 0) (element hm 1) 0 d))
         else Some (setHours env (Some 23) (Some 59) 0 d))
      else None)"

text \<open>\<^verbatim>\<open>new Date(task.dueDate) < currentDate\<close>: a comparison with NaN is false.\<close>

definition before :: "Date \<Rightarrow> int \<Rightarrow> bool" where
  "before d currentDate = (case d of Invalid_Date \<Rightarrow> False | Date t \<Rightarrow> t < currentDate)"

section \<open>Collections\<close>

text \<open>\<^verbatim>\<open>find({userId}).toArray()\<close>.\<close>

definition find_tasks :: "ObjectId \<Rightarrow> task list \<Rightarrow> task list" where
  "find_tasks u ts = filter (\<lambda>t. userId t = u) ts"

definition find_categories :: "ObjectId \<Rightarrow> category list \<Rightarrow> category list" where
  "find_categories u cs = filter (\<lambda>c. cat_userId c = u) cs"

text \<open>\<^verbatim>\<open>findOne({_id, userId})\<close>: the first document that matches, or \<^verbatim>\<open>null\<close>.\<close>

definition findOne_category :: "ObjectId \<Rightarrow> ObjectId \<Rightarrow> category list \<Rightarrow> category option" where
  "findOne_category i u cs = find (\<lambda>c. cat_id c = Some i \<and> cat_userId c = u) cs"

text \<open>
  \<^verbatim>\<open>deleteOne(filter)\<close>: removes the first document that matches; the result is
  \<^verbatim>\<open>deletedCount\<close> and the collection afterwards.
\<close>

fun deleteOne :: "('a \<Rightarrow> bool) \<Rightarrow> 'a list \<Rightarrow> nat \<times> 'a list" where
  "deleteOne P [] = (0, [])"
| "deleteOne P (x # xs) =
     (if P x then (1, xs) else (case deleteOne P xs of (n, r) \<Rightarrow> (n, x # r)))"

text \<open>
  \<^verbatim>\<open>insertOne(doc)\<close>: the driver gives a document without \<^verbatim>\<open>_id\<close> a generated one (also
  on the caller's object, which the response then shows), and the unique index on
  \<^verbatim>\<open>_id\<close> refuses a second document with the same identifier. How the driver writes an
  invalid \<^verbatim>\<open>Date\<close> is not modelled: no statement below is about a stored invalid date.
\<close>

definition insertOne_task :: "env \<Rightarrow> task \<Rightarrow> task list \<Rightarrow> exn + task \<times> task list" where
  "insertOne_task env d ts =
     (let i = (case task_id d of None \<Rightarrow> generatedId env | Some j \<Rightarrow> j);
          d' = d\<lparr>task_id := Some i\<rparr>
      in if Some i \<in> set (map task_id ts) then Inl DuplicateKey else Inr (d', ts @ [d']))"

definition insertOne_category ::
  "env \<Rightarrow> category \<Rightarrow> category list \<Rightarrow> exn + category \<times> category list" where
  "insertOne_category env d cs =
     (let i = (case cat_id d of None \<Rightarrow> generatedId env | Some j \<Rightarrow> j);
          d' = d\<lparr>cat_id := Some i\<rparr>
      in if Some i \<in> set (map cat_id cs) then Inl DuplicateKey else Inr (d', cs @ [d']))"

section \<open>The task routes: \<^verbatim>\<open>app/api/tasks/route.ts\<close>\<close>

text \<open>The five priorities (\<^verbatim>\<open>priorityOptions\<close> of \<^verbatim>\<open>TodoForm\<close>).\<close>

definition priorityOptions :: "string list" where
  "priorityOptions = [''highest'', ''high'', ''medium'', ''low'', ''lowest'']"

text \<open>
  Modelled from the spec: \<^verbatim>\<open>createTask\<close> of \<^verbatim>\<open>models/Task\<close> is imported by the route and
  is not part of the sources. Of the rules of the spec's create (4.3) the route applies the
  check of title and resume and the composition of the due date; the model function has the
  two that are left. ``Priority defaults to medium if not supplied; must otherwise be one of
  the 5 enumerated values --- reject unknown values with ValidationError''; and ``if dueTime
  present and dueDate absent, fail with ValidationError tagged to the date field''. The
  other fields are stored as given, with the owner the route passes. A rejection is an
  exception of the model function; the spec does not say which rule is reported when both
  are broken, and the priority is looked at first.
\<close>

definition createTask :: "task \<Rightarrow> exn + task" where
  "createTask data =
     (if (case priority data of None \<Rightarrow> False | Some p \<Rightarrow> p \<notin> set priorityOptions)
      then Inl (ValidationError ''priority'')
      else if truthy (dueTime data) \<and> dueDate data = None
      then Inl (ValidationError ''dueDate'')
      else Inr (data\<lparr>priority :=
                       (case priority data of None \<Rightarrow> Some ''medium'' | Some p \<Rightarrow> Some p)\<rparr>))"

text \<open>
  \<^verbatim>\<open>overdue: task.dueDate && new Date(task.dueDate) < currentDate\<close>, added to the fields
  of the stored task.
\<close>

definition withOverdue :: "int \<Rightarrow> task \<Rightarrow> task_with_overdue" where
  "withOverdue currentDate t =
     \<lparr>doc = t,
      overdue = (case dueDate t of
                   None \<Rightarrow> Nullish
                 | Some d \<Rightarrow> Boolean (before d currentDate))\<rparr>"

definition tasks_GET :: "env \<Rightarrow> string option \<Rightarrow> database \<Rightarrow> response \<times> database" where
  "tasks_GET env header db =
     (case authenticate env header of
        Throws e \<Rightarrow> (internal_server_error e, db)
      | Returns r \<Rightarrow> (r, db)
      | Yields userId' \<Rightarrow>
          (let found = find_tasks userId' (tasks db);
               currentDate = now env;
               tasksWithOverdueStatus = map (withOverdue currentDate) found
           in (json 200 True (Tasks tasksWithOverdueStatus), db)))"

text \<open>
  \<^verbatim>\<open>POST\<close>, with the function it calls as \<^verbatim>\<open>createTask\<close> as a parameter. The body is
  the parsed JSON object, with string fields (a body that \<^verbatim>\<open>req.json()\<close> cannot parse is
  not modelled); of its fields the route reads \<^verbatim>\<open>title\<close>, \<^verbatim>\<open>resume\<close>,
  \<^verbatim>\<open>description\<close>, \<^verbatim>\<open>dueDate\<close>, \<^verbatim>\<open>dueTime\<close> and \<^verbatim>\<open>priority\<close> (line 73), so the
  object given to \<^verbatim>\<open>createTask\<close> has no \<^verbatim>\<open>categoryId\<close>.
\<close>

definition tasks_POST_with ::
  "(task \<Rightarrow> exn + task) \<Rightarrow> env \<Rightarrow> string option \<Rightarrow> task_body \<Rightarrow> database
     \<Rightarrow> response \<times> database" where
  "tasks_POST_with create env header body db =
     (case authenticate env header of
        Throws e \<Rightarrow> (internal_server_error e, db)
      | Returns r \<Rightarrow> (r, db)
      | Yields userId' \<Rightarrow>
          if \<not> truthy (req_title body) \<or> \<not> truthy (req_resume body)
          then (json 400 False (Message ''Title and resume are required''), db)
          else
            (case create
                    \<lparr>task_id = None,
                     title = req_title body,
                     resume = req_resume body,
                     description = req_description body,
                     categoryId = None,
                     userId = userId',
                     dueDate = processedDueDate env (req_dueDate body) (req_dueTime body),
                     dueTime = or_undefined (req_dueTime body),
                     priority = req_priority body\<rparr> of
               Inl e \<Rightarrow> (internal_server_error e, db)
             | Inr newTask \<Rightarrow>
                 (case insertOne_task env newTask (tasks db) of
                    Inl e \<Rightarrow> (internal_server_error e, db)
                  | Inr (stored, ts) \<Rightarrow>
                      (json 201 True (Task (stored\<lparr>dueTime := or_undefined (dueTime stored)\<rparr>)),
                       db\<lparr>tasks := ts\<rparr>))))"

definition tasks_POST :: "env \<Rightarrow> string option \<Rightarrow> task_body \<Rightarrow> database \<Rightarrow> response \<times> database" where
  "tasks_POST = tasks_POST_with createTask"

section \<open>The category routes\<close>

text \<open>
  Modelled from the spec: \<^verbatim>\<open>createCategory\<close> of \<^verbatim>\<open>models/Category\<close> is imported by the
  route and is not part of the sources. The spec (4.2, create): ``fails with ValidationError
  if name is empty/absent; otherwise persists a new record with ownerId = userId and returns
  it''.
\<close>

definition createCategory :: "category \<Rightarrow> exn + category" where
  "createCategory data =
     (if truthy (name data) then Inr data else Inl (ValidationError ''name''))"

text \<open>\<^verbatim>\<open>app/api/categories/route.ts\<close>\<close>

definition categories_GET :: "env \<Rightarrow> string option \<Rightarrow> database \<Rightarrow> response \<times> database" where
  "categories_GET env header db =
     (case authenticate env header of
        Throws e \<Rightarrow> (internal_server_error e, db)
      | Returns r \<Rightarrow> (r, db)
      | Yields userId' \<Rightarrow>
          (json 200 True (Categories (find_categories userId' (categories db))), db))"

definition categories_POST ::
  "env \<Rightarrow> string option \<Rightarrow> category_body \<Rightarrow> database \<Rightarrow> response \<times> database" where
  "categories_POST env header body db =
     (case authenticate env header of
        Throws e \<Rightarrow> (internal_server_error e, db)
      | Returns r \<Rightarrow> (r, db)
      | Yields userId' \<Rightarrow>
          if \<not> truthy (req_name body)
          then (json 400 False (Message ''Category name is required''), db)
          else
            (case createCategory
                    \<lparr>cat_id = None,
                     name = req_name body,
                     cat_description = req_cat_description body,
                     cat_userId = userId'\<rparr> of
               Inl e \<Rightarrow> (internal_server_error e, db)
             | Inr newCategory \<Rightarrow>
                 (case insertOne_category env newCategory (categories db) of
                    Inl e \<Rightarrow> (internal_server_error e, db)
                  | Inr (stored, cs) \<Rightarrow>
                      (json 201 True (Category stored), db\<lparr>categories := cs\<rparr>))))"

text \<open>\<^verbatim>\<open>app/api/categories/[id]/route.ts\<close>\<close>

definition category_not_found :: response where
  "category_not_found =
     json 404 False (Message ''Category not found or does not belong to the user'')"

definition categories_id_GET ::
  "env \<Rightarrow> string option \<Rightarrow> string \<Rightarrow> database \<Rightarrow> response \<times> database" where
  "categories_id_GET env header params_id db =
     (case authenticate env header of
        Throws e \<Rightarrow> (internal_server_error e, db)
      | Returns r \<Rightarrow> (r, db)
      | Yields userId' \<Rightarrow>
          (case ObjectId env params_id of
             Inl e \<Rightarrow> (internal_server_error e, db)
           | Inr i \<Rightarrow>
               (case findOne_category i userId' (categories db) of
                  None \<Rightarrow> (category_not_found, db)
                | Some c \<Rightarrow> (json 200 True (Category c), db))))"

definition categories_id_DELETE ::
  "env \<Rightarrow> string option \<Rightarrow> string \<Rightarrow> database \<Rightarrow> response \<times> database" where
  "categories_id_DELETE env header params_id db =
     (case authenticate env header of
        Throws e \<Rightarrow> (internal_server_error e, db)
      | Returns r \<Rightarrow> (r, db)
      | Yields userId' \<Rightarrow>
          (case ObjectId env params_id of
             Inl e \<Rightarrow> (internal_server_error e, db)
           | Inr i \<Rightarrow>
               (case deleteOne (\<lambda>c. cat_id c = Some i \<and> cat_userId c = userId') (categories db) of
                  (deletedCount, cs) \<Rightarrow>
                    if deletedCount = 0 then (category_not_found, db)
                    else (json 200 True (Message ''Category deleted successfully''),
                          db\<lparr>categories := cs\<rparr>))))"

section \<open>The routes of one task\<close>

text \<open>
  Modelled from the spec: the routes of \<^verbatim>\<open>app/api/tasks/[id]\<close> (get, update and delete of
  one task) are not part of the sources. The spec (4.3) on update: it ``fails with NotFound
  under the ownership-or-absence rule before validation'', has the ``same validation and
  composition rules as create'' (title and resume non-empty; a due time needs a due date;
  the priority rule), and ``is a full-replace operation''. On delete: ``ownership-or-absence
  NotFound rule; removes the record''. The spec lists no get of one task among the
  operations, but its scenario 3 fetches one; the get here follows the rule the spec gives
  for every read (3: ``reads are always owner-filtered''; 7: NotFound is ``record absent or
  owned by another user''), as the get of a category does. A validation error is the 400
  response that names the field.
\<close>

definition task_not_found :: response where
  "task_not_found = json 404 False (Message ''Task not found'')"

definition tasks_id_GET ::
  "env \<Rightarrow> string option \<Rightarrow> string \<Rightarrow> database \<Rightarrow> response \<times> database" where
  "tasks_id_GET env header params_id db =
     (case authenticate env header of
        Throws e \<Rightarrow> (internal_server_error e, db)
      | Returns r \<Rightarrow> (r, db)
      | Yields userId' \<Rightarrow>
          (case ObjectId env params_id of
             Inl e \<Rightarrow> (internal_server_error e, db)
           | Inr i \<Rightarrow>
               (case find (\<lambda>t. task_id t = Some i \<and> userId t = userId') (tasks db) of
                  None \<Rightarrow> (task_not_found, db)
                | Some t \<Rightarrow> (json 200 True (Task t), db))))"

definition validation_error :: "string \<Rightarrow> response" where
  "validation_error field = json 400 False (Message field)"

definition tasks_id_PUT ::
  "env \<Rightarrow> string option \<Rightarrow> string \<Rightarrow> task_body \<Rightarrow> database \<Rightarrow> response \<times> database" where
  "tasks_id_PUT env header params_id body db =
     (case authenticate env header of
        Throws e \<Rightarrow> (internal_server_error e, db)
      | Returns r \<Rightarrow> (r, db)
      | Yields userId' \<Rightarrow>
          (case ObjectId env params_id of
             Inl e \<Rightarrow> (internal_server_error e, db)
           | Inr i \<Rightarrow>
               if \<not> list_ex (\<lambda>t. task_id t = Some i \<and> userId t = userId') (tasks db)
               then (task_not_found, db)
               else if \<not> truthy (req_title body) then (validation_error ''title'', db)
               else if \<not> truthy (req_resume body) then (validation_error ''resume'', db)
               else if truthy (req_dueTime body) \<and> \<not> truthy (req_dueDate body)
               then (validation_error ''dueDate'', db)
               else
                 (case createTask
                         \<lparr>task_id = Some i,
                          title = req_title body,
                          resume = req_resume body,
                          description = req_description body,
                          categoryId = req_categoryId body,
                          userId = userId',
                          dueDate = processedDueDate env (req_dueDate body) (req_dueTime body),
                          dueTime = or_undefined (req_dueTime body),
                          priority = req_priority body\<rparr> of
                    Inl e \<Rightarrow> (validation_error ''priority'', db)
                  | Inr replacement \<Rightarrow>
                      (json 200 True (Task replacement),
                       db\<lparr>tasks :=
                            map (\<lambda>t. if task_id t = Some i \<and> userId t = userId'
                                      then replacement else t) (tasks db)\<rparr>))))"

definition tasks_id_DELETE ::
  "env \<Rightarrow> string option \<Rightarrow> string \<Rightarrow> database \<Rightarrow> response \<times> database" where
  "tasks_id_DELETE env header params_id db =
     (case authenticate env header of
        Throws e \<Rightarrow> (internal_server_error e, db)
      | Returns r \<Rightarrow> (r, db)
      | Yields userId' \<Rightarrow>
          (case ObjectId env params_id of
             Inl e \<Rightarrow> (internal_server_error e, db)
           | Inr i \<Rightarrow>
               (case deleteOne (\<lambda>t. task_id t = Some i \<and> userId t = userId') (tasks db) of
                  (deletedCount, ts) \<Rightarrow>
                    if deletedCount = 0 then (task_not_found, db)
                    else (json 200 True (Message ''Task deleted successfully''),
                          db\<lparr>tasks := ts\<rparr>))))"

section \<open>The task form: \<^verbatim>\<open>TodoForm.tsx\<close>\<close>

text \<open>The state of the form that \<^verbatim>\<open>handleSaveTask\<close> reads.\<close>

record form =
  taskName :: string
  form_resume :: string
  form_description :: string
  selectedCategoryId :: "string option"
  form_priority :: string
  dateInput :: string
  timeInput :: string

text \<open>The keys of \<^verbatim>\<open>newErrors\<close> after the three checks of \<^verbatim>\<open>handleSaveTask\<close>.\<close>

definition newErrors :: "form \<Rightarrow> string list" where
  "newErrors f =
     (if taskName f = [] then [''taskName''] else [])
     @ (if form_resume f = [] then [''resume''] else [])
     @ (if timeInput f \<noteq> [] \<and> dateInput f = [] then [''dateInput''] else [])"

text \<open>
  \<^verbatim>\<open>handleSaveTask\<close>: with an error it sets the errors and returns (\<open>Inl\<close>: no request is
  sent); otherwise it sends the payload (\<open>Inr\<close>) to the create or the update route.
\<close>

definition handleSaveTask :: "form \<Rightarrow> string list + task_body" where
  "handleSaveTask f =
     (if length (newErrors f) > 0 then Inl (newErrors f)
      else Inr \<lparr>req_title = Some (taskName f),
                req_resume = Some (form_resume f),
                req_description = Some (form_description f),
                req_categoryId = selectedCategoryId f,
                req_priority = Some (form_priority f),
                req_dueDate = Some (dateInput f),
                req_dueTime = Some (timeInput f)\<rparr>)"

section \<open>Reading a response\<close>

definition returned_tasks :: "response \<Rightarrow> task_with_overdue list" where
  "returned_tasks r = (case content r of Tasks vs \<Rightarrow> vs | _ \<Rightarrow> [])"

definition returned_categories :: "response \<Rightarrow> category list" where
  "returned_categories r = (case content r of Categories cs \<Rightarrow> cs | _ \<Rightarrow> [])"

text \<open>\<^verbatim>\<open>ToBoolean\<close> of an \<^verbatim>\<open>overdue\<close> value.\<close>

definition ToBoolean :: "overdue_value \<Rightarrow> bool" where
  "ToBoolean v = (case v of Nullish \<Rightarrow> False | Boolean b \<Rightarrow> b)"

section \<open>A concrete environment and concrete requests\<close>

text \<open>
  A driver that takes the 24-digit hexadecimal strings as identifiers, a verifier that
  knows the tokens of two users and throws on every other token, a server whose local time
  is UTC, and a clock at 2025-01-15T00:00:00Z.
\<close>

definition isHexDigit :: "char \<Rightarrow> bool" where
  "isHexDigit c = (c \<in> set ''0123456789abcdefABCDEF'')"

definition hexValue :: "char \<Rightarrow> nat" where
  "hexValue c =
     (if isDigit c then of_char c - 48
      else if c \<in> set ''abcdef'' then of_char c - 87 else of_char c - 55)"

definition sample_ObjectId :: "string \<Rightarrow> exn + ObjectId" where
  "sample_ObjectId s =
     (if length s = 24 \<and> list_all isHexDigit s
      then Inr (foldl (\<lambda>n c. 16 * n + hexValue c) 0 s) else Inl BSONError)"

definition sample_verifyToken :: "string \<Rightarrow> exn + string" where
  "sample_verifyToken token =
     (if token = ''tokenA'' then Inr ''00000000000000000000000a''
      else if token = ''tokenB'' then Inr ''00000000000000000000000b''
      else Inl TokenError)"

definition sample_env :: env where
  "sample_env =
     \<lparr>dbConnect = Inr (),
      verifyToken = sample_verifyToken,
      ObjectId = sample_ObjectId,
      generatedId = 1,
      LocalTZA = 0,
      now = 1736899200000\<rparr>"

definition empty_db :: database where
  "empty_db = \<lparr>tasks = [], categories = []\<rparr>"

definition headerA :: "string option" where
  "headerA = Some ''Bearer tokenA''"

definition headerB :: "string option" where
  "headerB = Some ''Bearer tokenB''"

text \<open>The body \<^verbatim>\<open>{title: "Buy milk", resume: "grocery"}\<close>.\<close>

definition buy_milk :: task_body where
  "buy_milk =
     \<lparr>req_title = Some ''Buy milk'', req_resume = Some ''grocery'', req_description = None,
      req_categoryId = None, req_priority = None, req_dueDate = None, req_dueTime = None\<rparr>"

text \<open>The body \<^verbatim>\<open>{name: "Work"}\<close>, and the database after user A has created that category.\<close>

definition work :: category_body where
  "work = \<lparr>req_name = Some ''Work'', req_cat_description = None\<rparr>"

definition work_db :: database where
  "work_db = snd (categories_POST sample_env headerA work empty_db)"

definition id1 :: string where
  "id1 = ''000000000000000000000001''"

definition id2 :: string where
  "id2 = ''000000000000000000000002''"

text \<open>
  The same environment when the driver generates the identifier 2, and the database after
  user A has created the category and then the task \<open>buy_milk\<close>.
\<close>

definition sample_env2 :: env where
  "sample_env2 = sample_env\<lparr>generatedId := 2\<rparr>"

definition milk_db :: database where
  "milk_db = snd (tasks_POST sample_env2 headerA buy_milk work_db)"

text \<open>
  The database after user A has also created a task due on 2025-01-10 with no time, when
  the driver generates the identifier 3.
\<close>

definition sample_env3 :: env where
  "sample_env3 = sample_env\<lparr>generatedId := 3\<rparr>"

definition due_db :: database where
  "due_db =
     snd (tasks_POST sample_env3 headerA (buy_milk\<lparr>req_dueDate := Some ''2025-01-10''\<rparr>) milk_db)"

text \<open>The body \<^verbatim>\<open>{title: "Buy milk", resume: "grocery", priority: "urgent"}\<close>.\<close>

definition urgent :: task_body where
  "urgent = buy_milk\<lparr>req_priority := Some ''urgent''\<rparr>"

text \<open>
  A server whose local time is three hours behind UTC (\<^verbatim>\<open>TZ=America/Sao_Paulo\<close>), and the
  body \<^verbatim>\<open>{title: "Buy milk", resume: "grocery", dueDate: "2025-01-10", dueTime: "14:30"}\<close>.
\<close>

definition sao_paulo_env :: env where
  "sao_paulo_env = sample_env\<lparr>LocalTZA := - 3 * msPerHour\<rparr>"

definition due_body :: task_body where
  "due_body = buy_milk\<lparr>req_dueDate := Some ''2025-01-10'', req_dueTime := Some ''14:30''\<rparr>"

text \<open>The body \<^verbatim>\<open>{title: "Buy milk", resume: "grocery", dueTime: "14:30"}\<close>.\<close>

definition time_only :: task_body where
  "time_only = buy_milk\<lparr>req_dueTime := Some ''14:30''\<rparr>"

text \<open>
  The body \<^verbatim>\<open>{title: "Buy milk", resume: "grocery", categoryId: "000000000000000000000001"}\<close>,
  the database after user A has created the category and then this task, and the database
  after A has then deleted the category.
\<close>

definition referring :: task_body where
  "referring = buy_milk\<lparr>req_categoryId := Some id1\<rparr>"

definition referring_db :: database where
  "referring_db = snd (tasks_POST sample_env2 headerA referring work_db)"

definition dangling_db :: database where
  "dangling_db = snd (categories_id_DELETE sample_env headerA id1 referring_db)"

section \<open>Properties of the pieces\<close>

subsection \<open>Splitting and the credential\<close>

lemma js_split_not_Nil: "js_split c s \<noteq> []"
  by (induction s) (auto simp: Let_def)

lemma js_split_no_separator: "c \<notin> set w \<Longrightarrow> js_split c w = [w]"
  by (induction w) (auto simp: Let_def)

lemma js_split_first_piece: "c \<notin> set a \<Longrightarrow> js_split c (a @ c # t) = a # js_split c t"
  by (induction a) (auto simp: Let_def)

lemma token_of_scheme:
  "CHR '' '' \<notin> set scheme \<Longrightarrow>
     token_of (Some (scheme @ CHR '' '' # t)) = Some (hd (js_split CHR '' '' t))"
  using js_split_not_Nil [of "CHR '' ''" t]
  by (simp add: token_of_def js_split_first_piece hd_conv_nth)

lemma token_of_single_word: "CHR '' '' \<notin> set w \<Longrightarrow> token_of (Some w) = None"
  unfolding token_of_def by (simp add: js_split_no_separator)

lemma authenticate_cong:
  "token_of h = token_of h' \<Longrightarrow> authenticate env h = authenticate env h'"
  by (simp add: authenticate_def split: sum.splits)

lemma authenticate_no_token:
  "dbConnect env = Inr () \<Longrightarrow> \<not> truthy (token_of header) \<Longrightarrow>
     authenticate env header = Returns no_token_provided"
  by (simp add: authenticate_def)

lemma authenticate_no_connection:
  "dbConnect env = Inl e \<Longrightarrow> authenticate env header = Throws e"
  by (simp add: authenticate_def)

lemma authenticate_not_verified:
  "dbConnect env = Inr () \<Longrightarrow> truthy (token_of header) \<Longrightarrow>
     verifyToken env (str (token_of header)) = Inl e \<Longrightarrow>
     authenticate env header = Throws e"
  by (simp add: authenticate_def)

subsection \<open>Deleting one document\<close>

lemma deleteOne_no_match: "\<forall>x\<in>set xs. \<not> P x \<Longrightarrow> deleteOne P xs = (0, xs)"
  by (induction xs) auto

lemma deleteOne_count: "fst (deleteOne P xs) = (if \<exists>x\<in>set xs. P x then 1 else 0)"
  by (induction xs) (auto split: prod.splits)

lemma deleteOne_subset: "set (snd (deleteOne P xs)) \<subseteq> set xs"
  by (induction xs) (auto split: prod.splits)

lemma deleteOne_distinct:
  "distinct (map f xs) \<Longrightarrow> distinct (map f (snd (deleteOne P xs)))"
proof (induction xs)
  case Nil
  then show ?case by simp
next
  case (Cons x xs)
  have "f x \<notin> f ` set (snd (deleteOne P xs))"
    using Cons.prems deleteOne_subset [of P xs] by auto
  with Cons show ?case by (auto split: prod.splits)
qed

text \<open>
  Where the filter fixes the value of a key and the key is unique in the collection, no
  document matches the filter after \<^verbatim>\<open>deleteOne\<close>.
\<close>

lemma deleteOne_removes_key:
  assumes key: "\<forall>x. P x \<longrightarrow> f x = k"
  shows "distinct (map f xs) \<Longrightarrow> \<forall>y\<in>set (snd (deleteOne P xs)). \<not> P y"
proof (induction xs)
  case Nil
  show ?case by simp
next
  case (Cons x xs)
  from Cons.prems have notin: "f x \<notin> f ` set xs" and dist: "distinct (map f xs)"
    by simp_all
  show ?case
  proof (cases "P x")
    case True
    with key have "f x = k" by simp
    with notin have "\<forall>y\<in>set xs. f y \<noteq> k" by blast
    with key have "\<forall>y\<in>set xs. \<not> P y" by blast
    with True show ?thesis by simp
  next
    case False
    from dist have "\<forall>y\<in>set (snd (deleteOne P xs)). \<not> P y" by (rule Cons.IH)
    with False show ?thesis by (cases "deleteOne P xs") simp
  qed
qed

subsection \<open>Responses and the concrete environment\<close>

lemma status_values:
  "status no_token_provided = 401"
  "status (internal_server_error e) = 500"
  "status category_not_found = 404"
  by (simp_all add: no_token_provided_def internal_server_error_def category_not_found_def
      json_def)

lemma authenticate_headerA: "authenticate sample_env headerA = Yields 10"
  by (simp add: authenticate_def sample_env_def headerA_def token_of_def truthy_def str_def
      sample_verifyToken_def sample_ObjectId_def isHexDigit_def hexValue_def isDigit_def)

lemma authenticate_headerB: "authenticate sample_env headerB = Yields 11"
  by (simp add: authenticate_def sample_env_def headerB_def token_of_def truthy_def str_def
      sample_verifyToken_def sample_ObjectId_def isHexDigit_def hexValue_def isDigit_def)

lemma sample_env_fields:
  "dbConnect sample_env = Inr ()" "generatedId sample_env = 1" "LocalTZA sample_env = 0"
  "now sample_env = 1736899200000" "verifyToken sample_env = sample_verifyToken"
  "ObjectId sample_env = sample_ObjectId"
  by (simp_all add: sample_env_def)

lemma work_db_value:
  "work_db = \<lparr>tasks = [],
      categories = [\<lparr>cat_id = Some 1, name = Some ''Work'', cat_description = None,
                     cat_userId = 10\<rparr>]\<rparr>"
  by (simp add: work_db_def categories_POST_def authenticate_headerA work_def truthy_def
      createCategory_def insertOne_category_def sample_env_fields empty_db_def Let_def)

lemma sample_ObjectId_values:
  "ObjectId sample_env id1 = Inr 1" "ObjectId sample_env id2 = Inr 2"
  by (simp_all add: sample_env_fields sample_ObjectId_def id1_def id2_def isHexDigit_def
      hexValue_def isDigit_def)

subsection \<open>The handlers after the prologue\<close>

lemma authenticate_Returns:
  "authenticate env header = Returns r \<Longrightarrow> r = no_token_provided"
  by (auto simp: authenticate_def Let_def split: sum.splits if_splits)

lemma handlers_cong:
  assumes "authenticate env h = authenticate env h'"
  shows "tasks_GET env h db = tasks_GET env h' db"
    and "tasks_POST_with create env h body db = tasks_POST_with create env h' body db"
    and "categories_GET env h db = categories_GET env h' db"
    and "categories_POST env h cbody db = categories_POST env h' cbody db"
    and "categories_id_GET env h params_id db = categories_id_GET env h' params_id db"
    and "categories_id_DELETE env h params_id db = categories_id_DELETE env h' params_id db"
  by (simp_all add: assms tasks_GET_def tasks_POST_with_def categories_GET_def
      categories_POST_def categories_id_GET_def categories_id_DELETE_def)

lemma handlers_Returns:
  assumes "authenticate env h = Returns r"
  shows "tasks_GET env h db = (r, db)"
    and "tasks_POST_with create env h body db = (r, db)"
    and "categories_GET env h db = (r, db)"
    and "categories_POST env h cbody db = (r, db)"
    and "categories_id_GET env h params_id db = (r, db)"
    and "categories_id_DELETE env h params_id db = (r, db)"
  by (simp_all add: assms tasks_GET_def tasks_POST_with_def categories_GET_def
      categories_POST_def categories_id_GET_def categories_id_DELETE_def)

lemma handlers_Throws:
  assumes "authenticate env h = Throws e"
  shows "tasks_GET env h db = (internal_server_error e, db)"
    and "tasks_POST_with create env h body db = (internal_server_error e, db)"
    and "categories_GET env h db = (internal_server_error e, db)"
    and "categories_POST env h cbody db = (internal_server_error e, db)"
    and "categories_id_GET env h params_id db = (internal_server_error e, db)"
    and "categories_id_DELETE env h params_id db = (internal_server_error e, db)"
  by (simp_all add: assms tasks_GET_def tasks_POST_with_def categories_GET_def
      categories_POST_def categories_id_GET_def categories_id_DELETE_def)

lemma categories_id_DELETE_Yields:
  assumes "authenticate env header = Yields u" and "ObjectId env params_id = Inr i"
  shows "categories_id_DELETE env header params_id db =
           (if fst (deleteOne (\<lambda>c. cat_id c = Some i \<and> cat_userId c = u) (categories db)) = 0
            then (category_not_found, db)
            else (json 200 True (Message ''Category deleted successfully''),
                  db\<lparr>categories :=
                       snd (deleteOne (\<lambda>c. cat_id c = Some i \<and> cat_userId c = u) (categories db))\<rparr>))"
  by (simp add: categories_id_DELETE_def assms split: prod.splits)

lemma categories_id_DELETE_200:
  assumes "status (fst (categories_id_DELETE env header params_id db)) = 200"
  shows "\<exists>u i. authenticate env header = Yields u \<and> ObjectId env params_id = Inr i
           \<and> snd (categories_id_DELETE env header params_id db) =
               db\<lparr>categories :=
                    snd (deleteOne (\<lambda>c. cat_id c = Some i \<and> cat_userId c = u) (categories db))\<rparr>"
proof (cases "authenticate env header")
  case (Throws e)
  with assms show ?thesis by (simp add: handlers_Throws status_values)
next
  case (Returns r)
  with assms show ?thesis
    by (simp add: handlers_Returns authenticate_Returns [OF Returns] status_values)
next
  case (Yields u)
  show ?thesis
  proof (cases "ObjectId env params_id")
    case (Inl e)
    with assms Yields show ?thesis
      by (simp add: categories_id_DELETE_def status_values)
  next
    case (Inr i)
    with assms Yields show ?thesis
      by (auto simp: categories_id_DELETE_Yields status_values split: if_splits)
  qed
qed

section \<open>Validation of the required fields\<close>

text \<open>
  C8, as stated, fails in one word: the validation error is not tagged with a field. The
  answer to a request without a title and the answer to a request without a resume are the
  same response, with one fixed message, so the caller cannot tell from it which input to
  highlight.
\<close>

theorem validation_error_is_not_field_tagged:
  "tasks_POST sample_env headerA (buy_milk\<lparr>req_title := None\<rparr>) empty_db =
     (json 400 False (Message ''Title and resume are required''), empty_db)
   \<and> tasks_POST sample_env headerA (buy_milk\<lparr>req_resume := None\<rparr>) empty_db =
     (json 400 False (Message ''Title and resume are required''), empty_db)"
  by (simp add: tasks_POST_def tasks_POST_with_def authenticate_headerA buy_milk_def truthy_def)

text \<open>
  C8, amended. For every task creation request of an authenticated user in which \<^verbatim>\<open>title\<close>
  or \<^verbatim>\<open>resume\<close> is empty or absent, the route answers 400 with the one fixed message
  \<^verbatim>\<open>Title and resume are required\<close>, the same whichever field is missing, and the database
  is left as it was: the check comes before \<^verbatim>\<open>createTask\<close> and \<^verbatim>\<open>insertOne\<close>, whatever
  \<^verbatim>\<open>createTask\<close> does.
\<close>

theorem required_fields_checked_before_persisting:
  assumes "authenticate env header = Yields u"
      and "\<not> truthy (req_title body) \<or> \<not> truthy (req_resume body)"
  shows "tasks_POST_with create env header body db =
           (json 400 False (Message ''Title and resume are required''), db)
         \<and> status (fst (tasks_POST_with create env header body db)) = 400
         \<and> snd (tasks_POST_with create env header body db) = db"
  using assms by (auto simp: tasks_POST_with_def json_def)

theorem required_fields_checked_before_persisting_witness:
  "authenticate sample_env headerA = Yields 10
   \<and> \<not> truthy (req_title (buy_milk\<lparr>req_title := Some ''''\<rparr>))
   \<and> tasks_POST sample_env headerA (buy_milk\<lparr>req_title := Some ''''\<rparr>) empty_db =
       (json 400 False (Message ''Title and resume are required''), empty_db)"
proof -
  have t: "\<not> truthy (req_title (buy_milk\<lparr>req_title := Some ''''\<rparr>))"
    by (simp add: truthy_def)
  from required_fields_checked_before_persisting
         [OF authenticate_headerA disjI1 [OF t], of createTask empty_db]
  show ?thesis using authenticate_headerA t by (simp add: tasks_POST_def)
qed

section \<open>Deleting a category twice\<close>

lemma sample_ObjectId_xyz: "ObjectId sample_env ''xyz'' = Inl BSONError"
  by (simp add: sample_env_fields sample_ObjectId_def)

text \<open>
  C9, as stated, fails for ``any absent id'': the identifier \<^verbatim>\<open>xyz\<close> is the identifier of no
  category, but \<^verbatim>\<open>new ObjectId("xyz")\<close> throws before the collection is asked, and the
  deletion is answered 500 by the \<^verbatim>\<open>catch\<close> block, not with the 404 of a missing category.
\<close>

theorem delete_of_malformed_id_is_500:
  "categories_id_DELETE sample_env headerA ''xyz'' work_db =
     (internal_server_error BSONError, work_db)
   \<and> status (fst (categories_id_DELETE sample_env headerA ''xyz'' work_db)) = 500
   \<and> category_not_found \<noteq> internal_server_error BSONError"
  by (simp add: categories_id_DELETE_def authenticate_headerA sample_ObjectId_xyz status_values
      category_not_found_def internal_server_error_def json_def)

text \<open>
  C9, amended. Where the identifiers of the stored categories are distinct (the unique index
  on \<^verbatim>\<open>_id\<close>): after a category deletion answered 200, the same deletion on the resulting
  database is answered with \<^verbatim>\<open>category_not_found\<close> (404), not with a success, and leaves
  that database as it is. A deletion of an identifier that \<^verbatim>\<open>new ObjectId\<close> accepts and that
  no category of the caller has is answered with \<^verbatim>\<open>category_not_found\<close> and leaves the
  database as it is. A deletion of an identifier that \<^verbatim>\<open>new ObjectId\<close> refuses is answered
  500, also with the database left as it is.
\<close>

theorem second_delete_is_not_found:
  assumes "distinct (map cat_id (categories db))"
  shows "(status (fst (categories_id_DELETE env header params_id db)) = 200 \<longrightarrow>
            categories_id_DELETE env header params_id
                (snd (categories_id_DELETE env header params_id db)) =
              (category_not_found, snd (categories_id_DELETE env header params_id db)))
         \<and> (authenticate env header = Yields u \<and> ObjectId env params_id = Inr i
              \<and> (\<forall>c\<in>set (categories db). \<not> (cat_id c = Some i \<and> cat_userId c = u)) \<longrightarrow>
            categories_id_DELETE env header params_id db = (category_not_found, db))
         \<and> (authenticate env header = Yields u \<and> ObjectId env params_id = Inl e \<longrightarrow>
            categories_id_DELETE env header params_id db = (internal_server_error e, db))
         \<and> status category_not_found = 404 \<and> status (internal_server_error e) = 500"
proof (intro conjI impI)
  assume "status (fst (categories_id_DELETE env header params_id db)) = 200"
  then obtain u' i' where a: "authenticate env header = Yields u'"
    and o: "ObjectId env params_id = Inr i'"
    and s: "snd (categories_id_DELETE env header params_id db) =
              db\<lparr>categories :=
                   snd (deleteOne (\<lambda>c. cat_id c = Some i' \<and> cat_userId c = u') (categories db))\<rparr>"
    using categories_id_DELETE_200 by blast
  let ?P = "\<lambda>c. cat_id c = Some i' \<and> cat_userId c = u'"
  have "\<forall>c\<in>set (snd (deleteOne ?P (categories db))). \<not> ?P c"
    by (rule deleteOne_removes_key [where f = cat_id and k = "Some i'"]) (simp_all add: assms)
  then have "deleteOne ?P (snd (deleteOne ?P (categories db))) =
               (0, snd (deleteOne ?P (categories db)))"
    by (rule deleteOne_no_match)
  then show "categories_id_DELETE env header params_id
                (snd (categories_id_DELETE env header params_id db)) =
              (category_not_found, snd (categories_id_DELETE env header params_id db))"
    by (simp add: s categories_id_DELETE_Yields [OF a o])
next
  assume h: "authenticate env header = Yields u \<and> ObjectId env params_id = Inr i
              \<and> (\<forall>c\<in>set (categories db). \<not> (cat_id c = Some i \<and> cat_userId c = u))"
  then have "deleteOne (\<lambda>c. cat_id c = Some i \<and> cat_userId c = u) (categories db) =
               (0, categories db)"
    by (intro deleteOne_no_match) simp
  with h show "categories_id_DELETE env header params_id db = (category_not_found, db)"
    by (simp add: categories_id_DELETE_Yields)
next
  assume "authenticate env header = Yields u \<and> ObjectId env params_id = Inl e"
  then show "categories_id_DELETE env header params_id db = (internal_server_error e, db)"
    by (simp add: categories_id_DELETE_def)
next
  show "status category_not_found = 404" "status (internal_server_error e) = 500"
    by (simp_all add: status_values)
qed

theorem second_delete_is_not_found_witness:
  "distinct (map cat_id (categories work_db))
   \<and> status (fst (categories_id_DELETE sample_env headerA id1 work_db)) = 200
   \<and> snd (categories_id_DELETE sample_env headerA id1 work_db) = empty_db
   \<and> categories_id_DELETE sample_env headerA id1 empty_db = (category_not_found, empty_db)
   \<and> categories_id_DELETE sample_env headerA id2 work_db = (category_not_found, work_db)
   \<and> categories_id_DELETE sample_env headerA ''xyz'' work_db =
       (internal_server_error BSONError, work_db)"
proof -
  have d: "distinct (map cat_id (categories work_db))"
    by (simp add: work_db_value)
  have s: "categories_id_DELETE sample_env headerA id1 work_db =
             (json 200 True (Message ''Category deleted successfully''), empty_db)"
    by (simp add: categories_id_DELETE_Yields [OF authenticate_headerA sample_ObjectId_values(1)]
        work_db_value empty_db_def)
  have n: "\<forall>c\<in>set (categories work_db). \<not> (cat_id c = Some 2 \<and> cat_userId c = 10)"
    by (simp add: work_db_value)
  from second_delete_is_not_found [OF d, of sample_env headerA id1 10 2]
       second_delete_is_not_found [OF d, of sample_env headerA id2 10 2]
       second_delete_is_not_found [OF d, of sample_env headerA "''xyz''" 10 2 BSONError]
  show ?thesis
    using d s n authenticate_headerA sample_ObjectId_values sample_ObjectId_xyz
    by (simp add: json_def)
qed

section \<open>The credential\<close>

text \<open>What the prologue does with the second piece of a header with a scheme.\<close>

lemma authenticate_scheme:
  assumes "CHR '' '' \<notin> set scheme" and "dbConnect env = Inr ()"
  shows "authenticate env (Some (scheme @ CHR '' '' # t)) =
           (if hd (js_split CHR '' '' t) = [] then Returns no_token_provided
            else (case verifyToken env (hd (js_split CHR '' '' t)) of
                    Inl e \<Rightarrow> Throws e
                  | Inr decoded_userId \<Rightarrow>
                      (case ObjectId env decoded_userId of
                         Inl e \<Rightarrow> Throws e
                       | Inr userId' \<Rightarrow> Yields userId')))"
  using assms by (simp add: authenticate_def token_of_scheme truthy_def str_def)

lemma handlers_Yields_lists:
  assumes "authenticate env h = Yields u"
  shows "tasks_GET env h db =
           (json 200 True (Tasks (map (withOverdue (now env)) (find_tasks u (tasks db)))), db)"
    and "categories_GET env h db =
           (json 200 True (Categories (find_categories u (categories db))), db)"
  by (simp_all add: assms tasks_GET_def categories_GET_def Let_def)

text \<open>
  C10, as stated, fails in two places. The credential is not the second
  whitespace-separated word: after \<^verbatim>\<open>Bearer\<close> and two spaces the second piece of
  \<^verbatim>\<open>split(" ")\<close> is the empty string, so the request with user A's valid token as its second
  word is answered 401, where the same token after one space is answered 200. And a header
  of a single word is not always answered 401: \<^verbatim>\<open>dbConnect()\<close> comes first, and when it
  fails the answer is 500.
\<close>

theorem second_word_is_not_always_the_credential:
  "token_of (Some ''Bearer  tokenA'') = Some []
   \<and> tasks_GET sample_env (Some ''Bearer  tokenA'') work_db = (no_token_provided, work_db)
   \<and> status (fst (tasks_GET sample_env (Some ''Bearer  tokenA'') work_db)) = 401
   \<and> status (fst (tasks_GET sample_env (Some ''Bearer tokenA'') work_db)) = 200
   \<and> status (fst (tasks_GET (sample_env\<lparr>dbConnect := Inl ConnectionError\<rparr>)
                      (Some ''Bearer'') work_db)) = 500"
proof -
  have t: "token_of (Some ''Bearer  tokenA'') = Some []"
    by (simp add: token_of_def)
  then have "authenticate sample_env (Some ''Bearer  tokenA'') = Returns no_token_provided"
    by (simp add: authenticate_no_token sample_env_fields truthy_def)
  then have r: "tasks_GET sample_env (Some ''Bearer  tokenA'') work_db =
                  (no_token_provided, work_db)"
    by (rule handlers_Returns)
  have "authenticate (sample_env\<lparr>dbConnect := Inl ConnectionError\<rparr>) (Some ''Bearer'') =
          Throws ConnectionError"
    by (simp add: authenticate_no_connection)
  then have c: "tasks_GET (sample_env\<lparr>dbConnect := Inl ConnectionError\<rparr>) (Some ''Bearer'') work_db =
                  (internal_server_error ConnectionError, work_db)"
    by (rule handlers_Throws)
  have ok: "status (fst (tasks_GET sample_env (Some ''Bearer tokenA'') work_db)) = 200"
    using handlers_Yields_lists(1) [OF authenticate_headerA, of work_db]
    by (simp add: headerA_def json_def)
  show ?thesis
    unfolding r c using t ok by (simp add: status_values)
qed

text \<open>
  C10, amended. The credential is the second piece of the \<^verbatim>\<open>Authorization\<close> header split
  at each single space, and the first piece is never looked at. For a header that starts
  with a piece without a space and one space, once the connection is there: when the second
  piece is empty the answer is 401; otherwise the second piece is what \<^verbatim>\<open>verifyToken\<close>
  receives, the request goes on as the user it decodes to (the lists are those of that
  user), and an exception of \<^verbatim>\<open>verifyToken\<close> is answered 500. So headers that differ only in
  that first piece (\<^verbatim>\<open>Basic t\<close>, \<^verbatim>\<open>X t\<close>, \<^verbatim>\<open>Bearer t\<close>) give the same result of every
  handler. A header without a space (a bare token, or \<^verbatim>\<open>Bearer\<close> alone) gives no credential
  and, once the connection is there, is answered 401 by every handler with the database left
  as it is.
\<close>

theorem scheme_is_not_checked:
  assumes "CHR '' '' \<notin> set scheme" and "CHR '' '' \<notin> set scheme'" and "CHR '' '' \<notin> set w"
  shows "token_of (Some (scheme @ CHR '' '' # t)) = Some (hd (js_split CHR '' '' t))
         \<and> token_of (Some (scheme' @ CHR '' '' # t)) = token_of (Some (scheme @ CHR '' '' # t))
         \<and> tasks_GET env (Some (scheme' @ CHR '' '' # t)) db =
             tasks_GET env (Some (scheme @ CHR '' '' # t)) db
         \<and> tasks_POST_with create env (Some (scheme' @ CHR '' '' # t)) body db =
             tasks_POST_with create env (Some (scheme @ CHR '' '' # t)) body db
         \<and> categories_GET env (Some (scheme' @ CHR '' '' # t)) db =
             categories_GET env (Some (scheme @ CHR '' '' # t)) db
         \<and> categories_POST env (Some (scheme' @ CHR '' '' # t)) cbody db =
             categories_POST env (Some (scheme @ CHR '' '' # t)) cbody db
         \<and> categories_id_GET env (Some (scheme' @ CHR '' '' # t)) params_id db =
             categories_id_GET env (Some (scheme @ CHR '' '' # t)) params_id db
         \<and> categories_id_DELETE env (Some (scheme' @ CHR '' '' # t)) params_id db =
             categories_id_DELETE env (Some (scheme @ CHR '' '' # t)) params_id db
         \<and> token_of (Some w) = None
         \<and> (dbConnect env = Inr () \<longrightarrow>
               tasks_GET env (Some w) db = (no_token_provided, db)
             \<and> tasks_POST_with create env (Some w) body db = (no_token_provided, db)
             \<and> categories_GET env (Some w) db = (no_token_provided, db)
             \<and> categories_POST env (Some w) cbody db = (no_token_provided, db)
             \<and> categories_id_GET env (Some w) params_id db = (no_token_provided, db)
             \<and> categories_id_DELETE env (Some w) params_id db = (no_token_provided, db)
             \<and> status no_token_provided = 401)
         \<and> (dbConnect env = Inr () \<and> hd (js_split CHR '' '' t) = [] \<longrightarrow>
               authenticate env (Some (scheme @ CHR '' '' # t)) = Returns no_token_provided
             \<and> tasks_GET env (Some (scheme @ CHR '' '' # t)) db = (no_token_provided, db))
         \<and> (dbConnect env = Inr () \<and> hd (js_split CHR '' '' t) \<noteq> []
              \<and> verifyToken env (hd (js_split CHR '' '' t)) = Inl e \<longrightarrow>
               authenticate env (Some (scheme @ CHR '' '' # t)) = Throws e
             \<and> tasks_GET env (Some (scheme @ CHR '' '' # t)) db = (internal_server_error e, db))
         \<and> (dbConnect env = Inr () \<and> hd (js_split CHR '' '' t) \<noteq> []
              \<and> verifyToken env (hd (js_split CHR '' '' t)) = Inr uid
              \<and> ObjectId env uid = Inr u \<longrightarrow>
               authenticate env (Some (scheme @ CHR '' '' # t)) = Yields u
             \<and> tasks_GET env (Some (scheme @ CHR '' '' # t)) db =
                 (json 200 True (Tasks (map (withOverdue (now env)) (find_tasks u (tasks db)))), db)
             \<and> categories_GET env (Some (scheme @ CHR '' '' # t)) db =
                 (json 200 True (Categories (find_categories u (categories db))), db))"
proof -
  have tok: "token_of (Some (scheme' @ CHR '' '' # t)) = token_of (Some (scheme @ CHR '' '' # t))"
    using assms(1,2) by (simp add: token_of_scheme)
  then have auth: "authenticate env (Some (scheme' @ CHR '' '' # t)) =
                     authenticate env (Some (scheme @ CHR '' '' # t))"
    by (rule authenticate_cong)
  have none: "token_of (Some w) = None"
    using assms(3) by (rule token_of_single_word)
  have ret: "authenticate env (Some w) = Returns no_token_provided" if "dbConnect env = Inr ()"
    using that none by (simp add: authenticate_no_token truthy_def)
  have first: "token_of (Some (scheme @ CHR '' '' # t)) = Some (hd (js_split CHR '' '' t))
         \<and> token_of (Some (scheme' @ CHR '' '' # t)) = token_of (Some (scheme @ CHR '' '' # t))
         \<and> tasks_GET env (Some (scheme' @ CHR '' '' # t)) db =
             tasks_GET env (Some (scheme @ CHR '' '' # t)) db
         \<and> tasks_POST_with create env (Some (scheme' @ CHR '' '' # t)) body db =
             tasks_POST_with create env (Some (scheme @ CHR '' '' # t)) body db
         \<and> categories_GET env (Some (scheme' @ CHR '' '' # t)) db =
             categories_GET env (Some (scheme @ CHR '' '' # t)) db
         \<and> categories_POST env (Some (scheme' @ CHR '' '' # t)) cbody db =
             categories_POST env (Some (scheme @ CHR '' '' # t)) cbody db
         \<and> categories_id_GET env (Some (scheme' @ CHR '' '' # t)) params_id db =
             categories_id_GET env (Some (scheme @ CHR '' '' # t)) params_id db
         \<and> categories_id_DELETE env (Some (scheme' @ CHR '' '' # t)) params_id db =
             categories_id_DELETE env (Some (scheme @ CHR '' '' # t)) params_id db
         \<and> token_of (Some w) = None
         \<and> (dbConnect env = Inr () \<longrightarrow>
               tasks_GET env (Some w) db = (no_token_provided, db)
             \<and> tasks_POST_with create env (Some w) body db = (no_token_provided, db)
             \<and> categories_GET env (Some w) db = (no_token_provided, db)
             \<and> categories_POST env (Some w) cbody db = (no_token_provided, db)
             \<and> categories_id_GET env (Some w) params_id db = (no_token_provided, db)
             \<and> categories_id_DELETE env (Some w) params_id db = (no_token_provided, db)
             \<and> status no_token_provided = 401)"
    using assms(1) tok none
    by (simp add: token_of_scheme handlers_cong [OF auth] handlers_Returns [OF ret]
        status_values)
  have empty: "authenticate env (Some (scheme @ CHR '' '' # t)) = Returns no_token_provided
             \<and> tasks_GET env (Some (scheme @ CHR '' '' # t)) db = (no_token_provided, db)"
    if "dbConnect env = Inr () \<and> hd (js_split CHR '' '' t) = []"
  proof -
    from that have "authenticate env (Some (scheme @ CHR '' '' # t)) = Returns no_token_provided"
      by (simp add: authenticate_scheme [OF assms(1)])
    then show ?thesis by (simp add: handlers_Returns)
  qed
  have throws: "authenticate env (Some (scheme @ CHR '' '' # t)) = Throws e
             \<and> tasks_GET env (Some (scheme @ CHR '' '' # t)) db = (internal_server_error e, db)"
    if "dbConnect env = Inr () \<and> hd (js_split CHR '' '' t) \<noteq> []
              \<and> verifyToken env (hd (js_split CHR '' '' t)) = Inl e"
  proof -
    from that have "authenticate env (Some (scheme @ CHR '' '' # t)) = Throws e"
      by (simp add: authenticate_scheme [OF assms(1)])
    then show ?thesis by (simp add: handlers_Throws)
  qed
  have yields: "authenticate env (Some (scheme @ CHR '' '' # t)) = Yields u
             \<and> tasks_GET env (Some (scheme @ CHR '' '' # t)) db =
                 (json 200 True (Tasks (map (withOverdue (now env)) (find_tasks u (tasks db)))), db)
             \<and> categories_GET env (Some (scheme @ CHR '' '' # t)) db =
                 (json 200 True (Categories (find_categories u (categories db))), db)"
    if "dbConnect env = Inr () \<and> hd (js_split CHR '' '' t) \<noteq> []
              \<and> verifyToken env (hd (js_split CHR '' '' t)) = Inr uid
              \<and> ObjectId env uid = Inr u"
  proof -
    from that have "authenticate env (Some (scheme @ CHR '' '' # t)) = Yields u"
      by (simp add: authenticate_scheme [OF assms(1)])
    then show ?thesis by (simp add: handlers_Yields_lists)
  qed
  from first empty throws yields show ?thesis by blast
qed

theorem scheme_is_not_checked_witness:
  "token_of (Some ''Basic tokenA'') = Some ''tokenA''
   \<and> verifyToken sample_env ''tokenA'' = Inr ''00000000000000000000000a''
   \<and> ObjectId sample_env ''00000000000000000000000a'' = Inr 10
   \<and> categories_GET sample_env (Some ''Basic tokenA'') work_db =
       (json 200 True (Categories (categories work_db)), work_db)
   \<and> tasks_GET sample_env (Some ''Basic tokenA'') work_db = tasks_GET sample_env headerA work_db
   \<and> categories_id_GET sample_env (Some ''X tokenA'') id1 work_db =
       categories_id_GET sample_env headerA id1 work_db
   \<and> verifyToken sample_env ''forged'' = Inl TokenError
   \<and> tasks_GET sample_env (Some ''Basic forged'') work_db =
       (internal_server_error TokenError, work_db)
   \<and> tasks_GET sample_env (Some ''tokenA'') work_db = (no_token_provided, work_db)
   \<and> tasks_GET sample_env (Some ''Bearer'') work_db = (no_token_provided, work_db)"
proof -
  have sp: "CHR '' '' \<notin> set ''Basic''" "CHR '' '' \<notin> set ''Bearer''" "CHR '' '' \<notin> set ''X''"
    "CHR '' '' \<notin> set ''tokenA''"
    by simp_all
  have v: "verifyToken sample_env ''tokenA'' = Inr ''00000000000000000000000a''"
    "ObjectId sample_env ''00000000000000000000000a'' = Inr 10"
    "verifyToken sample_env ''forged'' = Inl TokenError"
    by (simp_all add: sample_env_fields sample_verifyToken_def sample_ObjectId_def isHexDigit_def
        hexValue_def isDigit_def)
  have c: "find_categories 10 (categories work_db) = categories work_db"
    by (simp add: find_categories_def work_db_value)
  from scheme_is_not_checked [OF sp(1) sp(2) sp(4), of "''tokenA''" sample_env work_db
         _ _ _ _ _ "''00000000000000000000000a''" 10]
       scheme_is_not_checked [OF sp(2) sp(3) sp(2), of "''tokenA''" sample_env work_db _ _ _ id1]
       scheme_is_not_checked [OF sp(1) sp(2) sp(4), of "''forged''" sample_env work_db
         _ _ _ _ TokenError]
  show ?thesis
    using v c by (simp add: headerA_def sample_env_fields)
qed

section \<open>Ownership\<close>

lemma distinct_key_owner:
  assumes "distinct (map f xs)" and "x \<in> set xs" and "y \<in> set xs" and "f x = f y"
  shows "x = y"
  using assms by (meson distinct_map inj_onD)

lemma findOne_category_foreign:
  assumes "distinct (map cat_id cs)" and "c \<in> set cs" and "cat_id c = Some i"
      and "cat_userId c \<noteq> b"
  shows "\<forall>c'\<in>set cs. \<not> (cat_id c' = Some i \<and> cat_userId c' = b)"
  using assms distinct_key_owner [of cat_id cs] by metis

lemma categories_id_GET_no_match:
  assumes "authenticate env header = Yields b" and "ObjectId env params_id = Inr i"
      and "\<forall>c\<in>set (categories db). \<not> (cat_id c = Some i \<and> cat_userId c = b)"
  shows "categories_id_GET env header params_id db = (category_not_found, db)"
proof -
  from assms(3) have "findOne_category i b (categories db) = None"
    by (simp add: findOne_category_def find_None_iff)
  with assms(1,2) show ?thesis by (simp add: categories_id_GET_def)
qed

lemma categories_id_DELETE_no_match:
  assumes "authenticate env header = Yields b" and "ObjectId env params_id = Inr i"
      and "\<forall>c\<in>set (categories db). \<not> (cat_id c = Some i \<and> cat_userId c = b)"
  shows "categories_id_DELETE env header params_id db = (category_not_found, db)"
proof -
  from assms(3)
  have "deleteOne (\<lambda>c. cat_id c = Some i \<and> cat_userId c = b) (categories db) = (0, categories db)"
    by (intro deleteOne_no_match) simp
  with assms(1,2) show ?thesis by (simp add: categories_id_DELETE_Yields)
qed

lemma authenticate_generatedId:
  "authenticate (env\<lparr>generatedId := g\<rparr>) header = authenticate env header"
  by (simp add: authenticate_def Let_def split: sum.splits)

lemma milk_db_value:
  "milk_db =
     \<lparr>tasks = [\<lparr>task_id = Some 2, title = Some ''Buy milk'', resume = Some ''grocery'',
                description = None, categoryId = None, userId = 10, dueDate = None,
                dueTime = None, priority = Some ''medium''\<rparr>],
      categories = [\<lparr>cat_id = Some 1, name = Some ''Work'', cat_description = None,
                     cat_userId = 10\<rparr>]\<rparr>"
  by (simp add: milk_db_def tasks_POST_def tasks_POST_with_def sample_env2_def
      authenticate_generatedId authenticate_headerA buy_milk_def truthy_def createTask_def
      processedDueDate_def or_undefined_def insertOne_task_def work_db_value Let_def)

text \<open>A created document belongs to the caller and has an identifier of its own.\<close>

lemma tasks_POST_created:
  assumes "status (fst (tasks_POST env header body db)) = 201"
  shows "\<exists>u t. authenticate env header = Yields u
           \<and> snd (tasks_POST env header body db) = db\<lparr>tasks := tasks db @ [t]\<rparr>
           \<and> userId t = u \<and> task_id t \<notin> set (map task_id (tasks db))"
proof (cases "authenticate env header")
  case (Throws e)
  with assms show ?thesis
    by (simp add: tasks_POST_def handlers_Throws status_values)
next
  case (Returns r)
  with assms show ?thesis
    by (simp add: tasks_POST_def handlers_Returns authenticate_Returns [OF Returns] status_values)
next
  case (Yields u)
  with assms show ?thesis
    by (auto simp: tasks_POST_def tasks_POST_with_def createTask_def insertOne_task_def
        status_values json_def Let_def split: if_splits option.splits)
qed

lemma categories_POST_created:
  assumes "status (fst (categories_POST env header body db)) = 201"
  shows "\<exists>u c. authenticate env header = Yields u
           \<and> snd (categories_POST env header body db) = db\<lparr>categories := categories db @ [c]\<rparr>
           \<and> cat_userId c = u \<and> cat_id c \<notin> set (map cat_id (categories db))"
proof (cases "authenticate env header")
  case (Throws e)
  with assms show ?thesis
    by (simp add: handlers_Throws status_values)
next
  case (Returns r)
  with assms show ?thesis
    by (simp add: handlers_Returns authenticate_Returns [OF Returns] status_values)
next
  case (Yields u)
  with assms show ?thesis
    by (auto simp: categories_POST_def createCategory_def insertOne_category_def
        status_values json_def Let_def split: if_splits option.splits)
qed

text \<open>
  The handlers keep the identifiers of the stored categories distinct, as the unique index
  on \<^verbatim>\<open>_id\<close> does.
\<close>

lemma categories_POST_distinct:
  assumes "distinct (map cat_id (categories db))"
  shows "distinct (map cat_id (categories (snd (categories_POST env header body db))))"
proof (cases "status (fst (categories_POST env header body db)) = 201")
  case True
  then obtain c where "snd (categories_POST env header body db) =
                         db\<lparr>categories := categories db @ [c]\<rparr>"
    and "cat_id c \<notin> set (map cat_id (categories db))"
    using categories_POST_created by blast
  with assms show ?thesis by simp
next
  case False
  then have "snd (categories_POST env header body db) = db"
    by (auto simp: categories_POST_def json_def internal_server_error_def
        split: step.splits sum.splits prod.splits)
  with assms show ?thesis by simp
qed

lemma categories_id_DELETE_distinct:
  assumes "distinct (map cat_id (categories db))"
  shows "distinct (map cat_id (categories (snd (categories_id_DELETE env header params_id db))))"
proof (cases "authenticate env header")
  case (Throws e)
  with assms show ?thesis by (simp add: handlers_Throws)
next
  case (Returns r)
  with assms show ?thesis by (simp add: handlers_Returns)
next
  case (Yields u)
  show ?thesis
  proof (cases "ObjectId env params_id")
    case (Inl e)
    with assms Yields show ?thesis by (simp add: categories_id_DELETE_def)
  next
    case (Inr i)
    with assms show ?thesis
      by (simp add: categories_id_DELETE_Yields [OF Yields Inr] deleteOne_distinct)
  qed
qed

text \<open>
  The get, the update and the delete of one task, as modelled from the spec, when no task
  has the identifier and the caller as its owner.
\<close>

lemma tasks_id_no_match:
  assumes "authenticate env header = Yields b" and "ObjectId env params_id = Inr i"
      and "\<forall>t\<in>set (tasks db). \<not> (task_id t = Some i \<and> userId t = b)"
  shows "tasks_id_GET env header params_id db = (task_not_found, db)"
    and "tasks_id_PUT env header params_id body db = (task_not_found, db)"
    and "tasks_id_DELETE env header params_id db = (task_not_found, db)"
proof -
  from assms(3) have "find (\<lambda>t. task_id t = Some i \<and> userId t = b) (tasks db) = None"
    by (simp add: find_None_iff)
  then show "tasks_id_GET env header params_id db = (task_not_found, db)"
    using assms(1,2) by (simp add: tasks_id_GET_def)
  show "tasks_id_PUT env header params_id body db = (task_not_found, db)"
    using assms by (simp add: tasks_id_PUT_def list_ex_iff)
  from assms(3)
  have "deleteOne (\<lambda>t. task_id t = Some i \<and> userId t = b) (tasks db) = (0, tasks db)"
    by (intro deleteOne_no_match) simp
  then show "tasks_id_DELETE env header params_id db = (task_not_found, db)"
    using assms(1,2) by (simp add: tasks_id_DELETE_def)
qed

lemma find_task_foreign:
  assumes "distinct (map task_id ts)" and "t \<in> set ts" and "task_id t = Some i"
      and "userId t \<noteq> b"
  shows "\<forall>t'\<in>set ts. \<not> (task_id t' = Some i \<and> userId t' = b)"
  using assms distinct_key_owner [of task_id ts] by metis

text \<open>
  C1. Let B be the authenticated caller. A task or category of another owner is in none of
  B's lists. Where the identifiers of the stored categories are distinct, B's get and delete
  of a category of another owner are answered with \<^verbatim>\<open>category_not_found\<close> (404) and leave the
  database as it is: the response is the very one given for an identifier that no category
  has. Where the identifiers of the stored tasks are distinct, B's get, update and delete of
  a task of another owner (the routes of one task, modelled from the spec) are answered with
  \<^verbatim>\<open>task_not_found\<close> (404) and leave the database as it is, whatever the body of the update:
  again the very response given for an identifier that no task has. B's lists are exactly
  the stored tasks and categories that B owns. (Neither the sources nor the spec have an
  update of a category.)
\<close>

theorem ownership_isolation:
  assumes "authenticate env header = Yields b"
  shows "(\<forall>t\<in>set (tasks db). userId t \<noteq> b \<longrightarrow>
            t \<notin> doc ` set (returned_tasks (fst (tasks_GET env header db))))
         \<and> (\<forall>c\<in>set (categories db). cat_userId c \<noteq> b \<longrightarrow>
            c \<notin> set (returned_categories (fst (categories_GET env header db))))
         \<and> (\<forall>c\<in>set (categories db).
              cat_userId c \<noteq> b \<and> distinct (map cat_id (categories db))
              \<and> cat_id c = Some i \<and> ObjectId env params_id = Inr i \<longrightarrow>
                categories_id_GET env header params_id db = (category_not_found, db)
              \<and> categories_id_DELETE env header params_id db = (category_not_found, db))
         \<and> ((\<forall>c\<in>set (categories db). cat_id c \<noteq> Some j) \<and> ObjectId env absent_id = Inr j \<longrightarrow>
                categories_id_GET env header absent_id db = (category_not_found, db)
              \<and> categories_id_DELETE env header absent_id db = (category_not_found, db))
         \<and> status category_not_found = 404
         \<and> (\<forall>t\<in>set (tasks db).
              userId t \<noteq> b \<and> distinct (map task_id (tasks db))
              \<and> task_id t = Some k \<and> ObjectId env task_params_id = Inr k \<longrightarrow>
                tasks_id_GET env header task_params_id db = (task_not_found, db)
              \<and> tasks_id_PUT env header task_params_id body db = (task_not_found, db)
              \<and> tasks_id_DELETE env header task_params_id db = (task_not_found, db))
         \<and> ((\<forall>t\<in>set (tasks db). task_id t \<noteq> Some l) \<and> ObjectId env absent_task_id = Inr l \<longrightarrow>
                tasks_id_GET env header absent_task_id db = (task_not_found, db)
              \<and> tasks_id_PUT env header absent_task_id body db = (task_not_found, db)
              \<and> tasks_id_DELETE env header absent_task_id db = (task_not_found, db))
         \<and> status task_not_found = 404
         \<and> map doc (returned_tasks (fst (tasks_GET env header db))) = find_tasks b (tasks db)
         \<and> returned_categories (fst (categories_GET env header db)) =
             find_categories b (categories db)"
proof (intro conjI ballI impI)
  fix t assume "t \<in> set (tasks db)" and "userId t \<noteq> b"
  then show "t \<notin> doc ` set (returned_tasks (fst (tasks_GET env header db)))"
    by (auto simp: tasks_GET_def assms returned_tasks_def json_def find_tasks_def
        withOverdue_def Let_def)
next
  fix c assume "c \<in> set (categories db)" and "cat_userId c \<noteq> b"
  then show "c \<notin> set (returned_categories (fst (categories_GET env header db)))"
    by (simp add: categories_GET_def assms returned_categories_def json_def
        find_categories_def)
next
  fix c
  assume c: "c \<in> set (categories db)"
    and h: "cat_userId c \<noteq> b \<and> distinct (map cat_id (categories db))
              \<and> cat_id c = Some i \<and> ObjectId env params_id = Inr i"
  then have none: "\<forall>c'\<in>set (categories db). \<not> (cat_id c' = Some i \<and> cat_userId c' = b)"
    using findOne_category_foreign [of "categories db" c i b] by blast
  from h have o: "ObjectId env params_id = Inr i" by simp
  show "categories_id_GET env header params_id db = (category_not_found, db)"
    using assms o none by (rule categories_id_GET_no_match)
  show "categories_id_DELETE env header params_id db = (category_not_found, db)"
    using assms o none by (rule categories_id_DELETE_no_match)
next
  assume h: "(\<forall>c\<in>set (categories db). cat_id c \<noteq> Some j) \<and> ObjectId env absent_id = Inr j"
  then have none: "\<forall>c'\<in>set (categories db). \<not> (cat_id c' = Some j \<and> cat_userId c' = b)"
    by blast
  from h have o: "ObjectId env absent_id = Inr j" by simp
  show "categories_id_GET env header absent_id db = (category_not_found, db)"
    using assms o none by (rule categories_id_GET_no_match)
  show "categories_id_DELETE env header absent_id db = (category_not_found, db)"
    using assms o none by (rule categories_id_DELETE_no_match)
next
  show "status category_not_found = 404" by (simp add: status_values)
next
  fix t
  assume t: "t \<in> set (tasks db)"
    and h: "userId t \<noteq> b \<and> distinct (map task_id (tasks db))
              \<and> task_id t = Some k \<and> ObjectId env task_params_id = Inr k"
  then have none: "\<forall>t'\<in>set (tasks db). \<not> (task_id t' = Some k \<and> userId t' = b)"
    using find_task_foreign [of "tasks db" t k b] by blast
  from h have o: "ObjectId env task_params_id = Inr k" by simp
  show "tasks_id_GET env header task_params_id db = (task_not_found, db)"
    using assms o none by (rule tasks_id_no_match(1))
  show "tasks_id_PUT env header task_params_id body db = (task_not_found, db)"
    using assms o none by (rule tasks_id_no_match(2))
  show "tasks_id_DELETE env header task_params_id db = (task_not_found, db)"
    using assms o none by (rule tasks_id_no_match(3))
next
  assume h: "(\<forall>t\<in>set (tasks db). task_id t \<noteq> Some l) \<and> ObjectId env absent_task_id = Inr l"
  then have none: "\<forall>t'\<in>set (tasks db). \<not> (task_id t' = Some l \<and> userId t' = b)"
    by blast
  from h have o: "ObjectId env absent_task_id = Inr l" by simp
  show "tasks_id_GET env header absent_task_id db = (task_not_found, db)"
    using assms o none by (rule tasks_id_no_match(1))
  show "tasks_id_PUT env header absent_task_id body db = (task_not_found, db)"
    using assms o none by (rule tasks_id_no_match(2))
  show "tasks_id_DELETE env header absent_task_id db = (task_not_found, db)"
    using assms o none by (rule tasks_id_no_match(3))
next
  show "status task_not_found = 404" by (simp add: task_not_found_def json_def)
next
  show "map doc (returned_tasks (fst (tasks_GET env header db))) = find_tasks b (tasks db)"
    by (simp add: handlers_Yields_lists [OF assms] returned_tasks_def json_def withOverdue_def
        comp_def)
next
  show "returned_categories (fst (categories_GET env header db)) =
          find_categories b (categories db)"
    by (simp add: handlers_Yields_lists [OF assms] returned_categories_def json_def)
qed

text \<open>
  User B against the category and the task of user A in \<open>milk_db\<close>; user A herself gets
  both, so the answers to B are not those of an empty database.
\<close>

theorem ownership_isolation_witness:
  "authenticate sample_env headerB = Yields 11
   \<and> map cat_userId (categories milk_db) = [10] \<and> map userId (tasks milk_db) = [10]
   \<and> returned_tasks (fst (tasks_GET sample_env headerB milk_db)) = []
   \<and> returned_categories (fst (categories_GET sample_env headerB milk_db)) = []
   \<and> categories_id_GET sample_env headerB id1 milk_db = (category_not_found, milk_db)
   \<and> categories_id_DELETE sample_env headerB id1 milk_db = (category_not_found, milk_db)
   \<and> categories_id_GET sample_env headerB id2 milk_db = (category_not_found, milk_db)
   \<and> categories_id_DELETE sample_env headerB id2 milk_db = (category_not_found, milk_db)
   \<and> tasks_id_GET sample_env headerB id2 milk_db = (task_not_found, milk_db)
   \<and> tasks_id_PUT sample_env headerB id2 buy_milk milk_db = (task_not_found, milk_db)
   \<and> tasks_id_DELETE sample_env headerB id2 milk_db = (task_not_found, milk_db)
   \<and> tasks_id_GET sample_env headerB id1 milk_db = (task_not_found, milk_db)
   \<and> returned_categories (fst (categories_GET sample_env headerA milk_db)) = categories milk_db
   \<and> map doc (returned_tasks (fst (tasks_GET sample_env headerA milk_db))) = tasks milk_db
   \<and> status (fst (categories_id_GET sample_env headerA id1 milk_db)) = 200
   \<and> status (fst (tasks_id_GET sample_env headerA id2 milk_db)) = 200
   \<and> status (fst (tasks_id_DELETE sample_env headerA id2 milk_db)) = 200"
proof -
  have lists:
    "returned_tasks (fst (tasks_GET sample_env headerB milk_db)) = []"
    "returned_categories (fst (categories_GET sample_env headerB milk_db)) = []"
    "returned_categories (fst (categories_GET sample_env headerA milk_db)) = categories milk_db"
    "map doc (returned_tasks (fst (tasks_GET sample_env headerA milk_db))) = tasks milk_db"
    by (simp_all add: tasks_GET_def categories_GET_def authenticate_headerA authenticate_headerB
        returned_tasks_def returned_categories_def json_def find_tasks_def find_categories_def
        milk_db_value withOverdue_def Let_def)
  have own:
    "status (fst (categories_id_GET sample_env headerA id1 milk_db)) = 200"
    "status (fst (tasks_id_GET sample_env headerA id2 milk_db)) = 200"
    "status (fst (tasks_id_DELETE sample_env headerA id2 milk_db)) = 200"
    by (simp_all add: categories_id_GET_def tasks_id_GET_def tasks_id_DELETE_def
        authenticate_headerA sample_ObjectId_values findOne_category_def milk_db_value json_def)
  from ownership_isolation [OF authenticate_headerB, of milk_db 1 id1 2 id2 2 id2 buy_milk 1 id1]
  show ?thesis
    using lists own authenticate_headerB sample_ObjectId_values
    by (simp add: milk_db_value)
qed

section \<open>The overdue status\<close>

lemma Date_parse_2025_01_10: "Date_parse ''2025-01-10'' = Some 1736467200000"
  by (simp add: Date_parse_def isDigit_def decimal_def digitValue_def daysInMonth_def
      leapYear_def MakeDay_def msPerDay_def)

lemma due_db_value:
  "due_db =
     \<lparr>tasks = [\<lparr>task_id = Some 2, title = Some ''Buy milk'', resume = Some ''grocery'',
                description = None, categoryId = None, userId = 10, dueDate = None,
                dueTime = None, priority = Some ''medium''\<rparr>,
               \<lparr>task_id = Some 3, title = Some ''Buy milk'', resume = Some ''grocery'',
                description = None, categoryId = None, userId = 10,
                dueDate = Some (Date 1736553540000),
                dueTime = None, priority = Some ''medium''\<rparr>],
      categories = [\<lparr>cat_id = Some 1, name = Some ''Work'', cat_description = None,
                     cat_userId = 10\<rparr>]\<rparr>"
  by (simp add: due_db_def tasks_POST_def tasks_POST_with_def sample_env3_def
      authenticate_generatedId authenticate_headerA buy_milk_def truthy_def createTask_def
      processedDueDate_def or_undefined_def insertOne_task_def milk_db_value Let_def
      str_def new_Date_def Date_parse_2025_01_10 setHours_def LocalTime_def UTC_def
      sample_env_fields Day_def MakeDate_def MakeTime_def msFromTime_def msPerDay_def
      msPerHour_def msPerMinute_def msPerSecond_def)

text \<open>
  C4, as stated, fails for a task without a due date: \<^verbatim>\<open>task.dueDate && ...\<close> is then the
  absent \<^verbatim>\<open>dueDate\<close> itself, so the listed task carries no boolean \<^verbatim>\<open>overdue\<close> (the field
  is \<^verbatim>\<open>undefined\<close> or \<^verbatim>\<open>null\<close>), not \<^verbatim>\<open>false\<close>.
\<close>

theorem overdue_without_dueDate_is_not_false:
  "map (\<lambda>v. dueDate (doc v)) (returned_tasks (fst (tasks_GET sample_env headerA milk_db))) = [None]
   \<and> map overdue (returned_tasks (fst (tasks_GET sample_env headerA milk_db))) = [Nullish]
   \<and> Nullish \<noteq> Boolean False"
  by (simp add: tasks_GET_def authenticate_headerA returned_tasks_def json_def find_tasks_def
      milk_db_value withOverdue_def Let_def)

text \<open>
  C4, amended. For every task returned by a list call, \<^verbatim>\<open>overdue\<close> is the boolean
  \<^verbatim>\<open>dueDate < now\<close> (\<open>now\<close> the time of the call) when the task has a due date, and the
  absent \<^verbatim>\<open>dueDate\<close> itself, a falsy value, when it has none; so the truth value of
  \<^verbatim>\<open>overdue\<close> is that of ``\<^verbatim>\<open>dueDate\<close> is set and \<^verbatim>\<open>dueDate < now\<close>'', and a task with no due
  date is never overdue whatever the time. The list call leaves the database as it is: the
  status is computed for the response only.
\<close>

theorem overdue_is_computed_when_listing:
  "(\<forall>v\<in>set (returned_tasks (fst (tasks_GET env header db))).
       overdue v = (case dueDate (doc v) of
                      None \<Rightarrow> Nullish
                    | Some d \<Rightarrow> Boolean (before d (now env)))
     \<and> ToBoolean (overdue v) = (\<exists>t. dueDate (doc v) = Some (Date t) \<and> t < now env))
   \<and> snd (tasks_GET env header db) = db"
proof (cases "authenticate env header")
  case (Throws e)
  then show ?thesis
    by (simp add: handlers_Throws returned_tasks_def internal_server_error_def json_def)
next
  case (Returns r)
  then show ?thesis
    by (simp add: handlers_Returns authenticate_Returns [OF Returns] returned_tasks_def
        no_token_provided_def json_def)
next
  case (Yields u)
  then show ?thesis
    by (auto simp: tasks_GET_def returned_tasks_def json_def withOverdue_def Let_def
        ToBoolean_def before_def split: option.splits Date.splits)
qed

theorem overdue_is_computed_when_listing_witness:
  "map overdue (returned_tasks (fst (tasks_GET sample_env headerA due_db)))
     = [Nullish, Boolean True]
   \<and> map (ToBoolean \<circ> overdue) (returned_tasks (fst (tasks_GET sample_env headerA due_db)))
     = [False, True]
   \<and> snd (tasks_GET sample_env headerA due_db) = due_db"
proof -
  have r: "returned_tasks (fst (tasks_GET sample_env headerA due_db)) =
             map (withOverdue (now sample_env)) (tasks due_db)"
    by (simp add: tasks_GET_def authenticate_headerA returned_tasks_def json_def find_tasks_def
        due_db_value Let_def)
  from overdue_is_computed_when_listing [of sample_env headerA due_db]
  show ?thesis
    unfolding r by (simp add: due_db_value before_def sample_env_fields withOverdue_def
        ToBoolean_def)
qed

section \<open>Requests without a valid credential\<close>

lemma authenticate_forged: "authenticate sample_env (Some ''Bearer forged'') = Throws TokenError"
  by (simp add: authenticate_def sample_env_fields token_of_def truthy_def str_def
      sample_verifyToken_def)

lemma authenticate_no_header: "authenticate sample_env None = Returns no_token_provided"
  by (simp add: authenticate_def sample_env_fields token_of_def truthy_def)

text \<open>
  C5, as stated, fails: a request without the header is answered 401, a request whose token
  does not verify is answered 500. The handlers have no 401 of their own after
  \<^verbatim>\<open>verifyToken\<close>: its exception goes to the \<^verbatim>\<open>catch\<close> block.
\<close>

theorem failed_verification_is_not_401:
  "tasks_GET sample_env None milk_db = (no_token_provided, milk_db)
   \<and> status (fst (tasks_GET sample_env None milk_db)) = 401
   \<and> tasks_GET sample_env (Some ''Bearer forged'') milk_db =
       (internal_server_error TokenError, milk_db)
   \<and> status (fst (tasks_GET sample_env (Some ''Bearer forged'') milk_db)) = 500"
  by (simp add: handlers_Throws [OF authenticate_forged] handlers_Returns [OF authenticate_no_header]
      status_values)

text \<open>
  C5, amended. Once the connection is there, every request in which the credential is
  missing (no header, or no non-empty second piece) is answered by every handler with the
  same 401 response, before any collection is read or written. A request whose credential
  fails verification is answered by every handler with 500 (the verifier's exception, caught),
  also with the database left as it is. The connection is asked for first of all: when
  \<^verbatim>\<open>dbConnect\<close> fails the answer is 500 whatever the header.
\<close>

theorem missing_credential_401_failed_verification_500:
  "(dbConnect env = Inr () \<and> \<not> truthy (token_of header) \<longrightarrow>
        tasks_GET env header db = (no_token_provided, db)
      \<and> tasks_POST_with create env header body db = (no_token_provided, db)
      \<and> categories_GET env header db = (no_token_provided, db)
      \<and> categories_POST env header cbody db = (no_token_provided, db)
      \<and> categories_id_GET env header params_id db = (no_token_provided, db)
      \<and> categories_id_DELETE env header params_id db = (no_token_provided, db))
   \<and> (dbConnect env = Inr () \<and> truthy (token_of header)
        \<and> verifyToken env (str (token_of header)) = Inl e \<longrightarrow>
        tasks_GET env header db = (internal_server_error e, db)
      \<and> tasks_POST_with create env header body db = (internal_server_error e, db)
      \<and> categories_GET env header db = (internal_server_error e, db)
      \<and> categories_POST env header cbody db = (internal_server_error e, db)
      \<and> categories_id_GET env header params_id db = (internal_server_error e, db)
      \<and> categories_id_DELETE env header params_id db = (internal_server_error e, db))
   \<and> (dbConnect env = Inl e \<longrightarrow>
        tasks_GET env header db = (internal_server_error e, db)
      \<and> tasks_POST_with create env header body db = (internal_server_error e, db)
      \<and> categories_GET env header db = (internal_server_error e, db)
      \<and> categories_POST env header cbody db = (internal_server_error e, db)
      \<and> categories_id_GET env header params_id db = (internal_server_error e, db)
      \<and> categories_id_DELETE env header params_id db = (internal_server_error e, db))
   \<and> status no_token_provided = 401 \<and> status (internal_server_error e) = 500"
proof (intro conjI impI)
  assume "dbConnect env = Inr () \<and> \<not> truthy (token_of header)"
  then have r: "authenticate env header = Returns no_token_provided"
    by (simp add: authenticate_no_token)
  show "tasks_GET env header db = (no_token_provided, db)"
    "tasks_POST_with create env header body db = (no_token_provided, db)"
    "categories_GET env header db = (no_token_provided, db)"
    "categories_POST env header cbody db = (no_token_provided, db)"
    "categories_id_GET env header params_id db = (no_token_provided, db)"
    "categories_id_DELETE env header params_id db = (no_token_provided, db)"
    by (simp_all add: handlers_Returns [OF r])
next
  assume "dbConnect env = Inr () \<and> truthy (token_of header)
        \<and> verifyToken env (str (token_of header)) = Inl e"
  then have t: "authenticate env header = Throws e"
    by (simp add: authenticate_not_verified)
  show "tasks_GET env header db = (internal_server_error e, db)"
    "tasks_POST_with create env header body db = (internal_server_error e, db)"
    "categories_GET env header db = (internal_server_error e, db)"
    "categories_POST env header cbody db = (internal_server_error e, db)"
    "categories_id_GET env header params_id db = (internal_server_error e, db)"
    "categories_id_DELETE env header params_id db = (internal_server_error e, db)"
    by (simp_all add: handlers_Throws [OF t])
next
  assume "dbConnect env = Inl e"
  then have t: "authenticate env header = Throws e"
    by (rule authenticate_no_connection)
  show "tasks_GET env header db = (internal_server_error e, db)"
    "tasks_POST_with create env header body db = (internal_server_error e, db)"
    "categories_GET env header db = (internal_server_error e, db)"
    "categories_POST env header cbody db = (internal_server_error e, db)"
    "categories_id_GET env header params_id db = (internal_server_error e, db)"
    "categories_id_DELETE env header params_id db = (internal_server_error e, db)"
    by (simp_all add: handlers_Throws [OF t])
next
  show "status no_token_provided = 401" "status (internal_server_error e) = 500"
    by (simp_all add: status_values)
qed

theorem missing_credential_401_failed_verification_500_witness:
  "dbConnect sample_env = Inr ()
   \<and> \<not> truthy (token_of None)
   \<and> categories_id_DELETE sample_env None id1 milk_db = (no_token_provided, milk_db)
   \<and> truthy (token_of (Some ''Bearer forged''))
   \<and> verifyToken sample_env (str (token_of (Some ''Bearer forged''))) = Inl TokenError
   \<and> categories_id_DELETE sample_env (Some ''Bearer forged'') id1 milk_db =
       (internal_server_error TokenError, milk_db)
   \<and> tasks_GET (sample_env\<lparr>dbConnect := Inl ConnectionError\<rparr>) None milk_db =
       (internal_server_error ConnectionError, milk_db)"
proof -
  have h: "dbConnect sample_env = Inr ()" "\<not> truthy (token_of None)"
    "truthy (token_of (Some ''Bearer forged''))"
    "verifyToken sample_env (str (token_of (Some ''Bearer forged''))) = Inl TokenError"
    "dbConnect (sample_env\<lparr>dbConnect := Inl ConnectionError\<rparr>) = Inl ConnectionError"
    by (simp_all add: sample_env_fields token_of_def truthy_def str_def sample_verifyToken_def)
  from missing_credential_401_failed_verification_500
         [of sample_env None milk_db _ _ _ id1 TokenError]
       missing_credential_401_failed_verification_500
         [of sample_env "Some ''Bearer forged''" milk_db _ _ _ id1 TokenError]
       missing_credential_401_failed_verification_500
         [of "sample_env\<lparr>dbConnect := Inl ConnectionError\<rparr>" None milk_db _ _ _ _ ConnectionError]
  show ?thesis using h by simp
qed

section \<open>The priority of a created task\<close>

text \<open>
  After the check of the two required fields the route has no 400 left: whatever
  \<^verbatim>\<open>createTask\<close> does, the answer is 201 or 500.
\<close>

lemma tasks_POST_with_no_other_400:
  assumes "authenticate env header = Yields u"
      and "truthy (req_title body)" and "truthy (req_resume body)"
  shows "status (fst (tasks_POST_with create env header body db)) = 201
         \<or> status (fst (tasks_POST_with create env header body db)) = 500"
  using assms
  by (auto simp: tasks_POST_with_def status_values json_def split: sum.splits prod.splits)

lemma tasks_POST_201:
  assumes "status (fst (tasks_POST env header body db)) = 201"
  shows "\<exists>t. content (fst (tasks_POST env header body db)) = Task t
           \<and> (\<exists>p. priority t = Some p \<and> p \<in> set priorityOptions
                  \<and> (req_priority body = None \<longrightarrow> p = ''medium''))"
proof (cases "authenticate env header")
  case (Throws e)
  with assms show ?thesis
    by (simp add: tasks_POST_def handlers_Throws status_values)
next
  case (Returns r)
  with assms show ?thesis
    by (simp add: tasks_POST_def handlers_Returns authenticate_Returns [OF Returns] status_values)
next
  case (Yields u)
  with assms show ?thesis
    by (auto simp: tasks_POST_def tasks_POST_with_def createTask_def insertOne_task_def
        status_values json_def Let_def priorityOptions_def split: if_splits option.splits)
qed

text \<open>
  C7, as stated, fails in its last part: a creation with the priority \<^verbatim>\<open>urgent\<close> is not
  answered with a validation error (400). The route passes \<^verbatim>\<open>priority\<close> on unchecked, and
  the rejection inside \<^verbatim>\<open>createTask\<close> is an exception that the \<^verbatim>\<open>catch\<close> block answers 500.
\<close>

theorem unknown_priority_is_not_400:
  "tasks_POST sample_env headerA urgent empty_db =
     (internal_server_error (ValidationError ''priority''), empty_db)
   \<and> status (fst (tasks_POST sample_env headerA urgent empty_db)) = 500"
  by (simp add: tasks_POST_def tasks_POST_with_def authenticate_headerA urgent_def buy_milk_def
      truthy_def createTask_def priorityOptions_def status_values)

text \<open>
  C7, amended. For every task creation answered 201, the returned priority is one of the
  five values, and is \<^verbatim>\<open>medium\<close> when the input had no priority. For every creation by an
  authenticated user with title and resume that supplies a priority outside the five, the
  operation fails and stores nothing, but the answer is 500, not a validation error: the
  route itself never checks the priority, and whatever function stands for \<^verbatim>\<open>createTask\<close>,
  the answer to such a request is never 400.
\<close>

theorem priority_of_a_created_task:
  "(status (fst (tasks_POST env header body db)) = 201 \<longrightarrow>
      (\<exists>t p. content (fst (tasks_POST env header body db)) = Task t
         \<and> priority t = Some p \<and> p \<in> set priorityOptions
         \<and> (req_priority body = None \<longrightarrow> p = ''medium'')))
   \<and> (authenticate env header = Yields u \<and> truthy (req_title body) \<and> truthy (req_resume body)
        \<and> req_priority body = Some p' \<and> p' \<notin> set priorityOptions \<longrightarrow>
      tasks_POST env header body db = (internal_server_error (ValidationError ''priority''), db)
      \<and> status (fst (tasks_POST env header body db)) = 500)
   \<and> (authenticate env header = Yields u \<and> truthy (req_title body) \<and> truthy (req_resume body)
        \<longrightarrow> status (fst (tasks_POST_with create env header body db)) \<noteq> 400)"
proof (intro conjI impI)
  assume "status (fst (tasks_POST env header body db)) = 201"
  then show "\<exists>t p. content (fst (tasks_POST env header body db)) = Task t
         \<and> priority t = Some p \<and> p \<in> set priorityOptions
         \<and> (req_priority body = None \<longrightarrow> p = ''medium'')"
    using tasks_POST_201 by blast
next
  assume h: "authenticate env header = Yields u \<and> truthy (req_title body)
        \<and> truthy (req_resume body) \<and> req_priority body = Some p' \<and> p' \<notin> set priorityOptions"
  then show r: "tasks_POST env header body db =
                  (internal_server_error (ValidationError ''priority''), db)"
    by (simp add: tasks_POST_def tasks_POST_with_def createTask_def)
  show "status (fst (tasks_POST env header body db)) = 500"
    unfolding r by (simp add: status_values)
next
  assume "authenticate env header = Yields u \<and> truthy (req_title body)
        \<and> truthy (req_resume body)"
  then have "status (fst (tasks_POST_with create env header body db)) = 201
         \<or> status (fst (tasks_POST_with create env header body db)) = 500"
    by (simp add: tasks_POST_with_no_other_400)
  then show "status (fst (tasks_POST_with create env header body db)) \<noteq> 400"
    by auto
qed

theorem priority_of_a_created_task_witness:
  "status (fst (tasks_POST sample_env headerA buy_milk empty_db)) = 201
   \<and> req_priority buy_milk = None
   \<and> (\<exists>t. content (fst (tasks_POST sample_env headerA buy_milk empty_db)) = Task t
          \<and> priority t = Some ''medium'')
   \<and> req_priority urgent = Some ''urgent'' \<and> ''urgent'' \<notin> set priorityOptions
   \<and> status (fst (tasks_POST sample_env headerA urgent empty_db)) = 500"
proof -
  have s: "status (fst (tasks_POST sample_env headerA buy_milk empty_db)) = 201"
    by (simp add: tasks_POST_def tasks_POST_with_def authenticate_headerA buy_milk_def
        truthy_def createTask_def processedDueDate_def or_undefined_def insertOne_task_def
        empty_db_def json_def Let_def)
  have h: "req_priority buy_milk = None" "req_priority urgent = Some ''urgent''"
    "''urgent'' \<notin> set priorityOptions" "truthy (req_title urgent)" "truthy (req_resume urgent)"
    by (simp_all add: buy_milk_def urgent_def priorityOptions_def truthy_def)
  from priority_of_a_created_task [of sample_env headerA buy_milk empty_db]
       priority_of_a_created_task [of sample_env headerA urgent empty_db 10 "''urgent''" createTask]
  show ?thesis using s h authenticate_headerA by auto
qed

section \<open>The due instant\<close>

lemma processedDueDate_absent:
  "\<not> truthy dueDate' \<Longrightarrow> processedDueDate env dueDate' dueTime' = None"
  by (simp add: processedDueDate_def)

lemma Date_parse_midnight: "Date_parse s = Some t \<Longrightarrow> \<exists>day. t = day * msPerDay"
  by (auto simp: Date_parse_def Let_def split: if_splits)

lemma LocalTime_UTC: "LocalTime env (UTC env t) = t"
  by (simp add: LocalTime_def UTC_def)

lemma processedDueDate_with_time:
  assumes "d \<noteq> []" and "Date_parse d = Some t" and "tm \<noteq> []"
      and "map Number (js_split CHR '':'' tm) = [Some h, Some m]"
  shows "processedDueDate env (Some d) (Some tm) =
           Some (Date (UTC env (MakeDate (Day (LocalTime env t))
                                  (MakeTime h m 0 (msFromTime (LocalTime env t))))))"
  using assms
  by (simp add: processedDueDate_def truthy_def str_def new_Date_def setHours_def element_def
      Let_def)

lemma processedDueDate_without_time:
  assumes "d \<noteq> []" and "Date_parse d = Some t" and "\<not> truthy dueTime'"
  shows "processedDueDate env (Some d) dueTime' =
           Some (Date (UTC env (MakeDate (Day (LocalTime env t))
                                  (MakeTime 23 59 0 (msFromTime (LocalTime env t))))))"
  using assms
  by (simp add: processedDueDate_def truthy_def str_def new_Date_def setHours_def Let_def)

text \<open>
  The local day of midnight UTC: the day itself at an offset from 0 up to a day, the day
  before at a negative offset down to a day.
\<close>

lemma Day_east:
  "0 \<le> LocalTZA env \<Longrightarrow> LocalTZA env < msPerDay \<Longrightarrow> Day (LocalTime env (day * msPerDay)) = day"
  by (simp add: Day_def LocalTime_def msPerDay_def)

lemma Day_west:
  "LocalTZA env < 0 \<Longrightarrow> - msPerDay \<le> LocalTZA env \<Longrightarrow>
     Day (LocalTime env (day * msPerDay)) = day - 1"
proof -
  assume a: "LocalTZA env < 0" "- msPerDay \<le> LocalTZA env"
  have "day * msPerDay + LocalTZA env = (day - 1) * msPerDay + (msPerDay + LocalTZA env)"
    by (simp add: algebra_simps)
  moreover have "0 \<le> msPerDay + LocalTZA env" "msPerDay + LocalTZA env < msPerDay"
    using a by simp_all
  ultimately show ?thesis
    by (simp add: Day_def LocalTime_def msPerDay_def)
qed

lemma mod_thousand: "(day * 86400000 + z) mod 1000 = z mod (1000::int)"
proof -
  have "day * 86400000 + z = z + (day * 86400) * 1000" by simp
  then show ?thesis by (simp only: mod_mult_self1)
qed

lemma msFromTime_midnight:
  assumes "LocalTZA env mod msPerSecond = 0"
  shows "msFromTime (LocalTime env (day * msPerDay)) = 0"
  using assms
  unfolding msFromTime_def LocalTime_def msPerDay_def msPerSecond_def
  by (simp only: mod_thousand)

text \<open>
  Where local time is at or ahead of UTC (by less than a day, in whole seconds), the due
  instant of a creation with a date and a time is that date at that time, in local time.
\<close>

lemma due_instant_east:
  assumes "0 \<le> LocalTZA env" and "LocalTZA env < msPerDay" and "LocalTZA env mod msPerSecond = 0"
      and "d \<noteq> []" and "Date_parse d = Some (day * msPerDay)" and "tm \<noteq> []"
      and "map Number (js_split CHR '':'' tm) = [Some h, Some m]"
  shows "\<exists>u. processedDueDate env (Some d) (Some tm) = Some (Date u)
           \<and> LocalTime env u = MakeDate day (MakeTime h m 0 0)"
  using assms
  by (simp add: processedDueDate_with_time LocalTime_UTC Day_east msFromTime_midnight)

text \<open>Where local time is behind UTC, it is the day before the given date at that time.\<close>

lemma due_instant_west:
  assumes "LocalTZA env < 0" and "- msPerDay \<le> LocalTZA env" and "LocalTZA env mod msPerSecond = 0"
      and "d \<noteq> []" and "Date_parse d = Some (day * msPerDay)" and "tm \<noteq> []"
      and "map Number (js_split CHR '':'' tm) = [Some h, Some m]"
  shows "\<exists>u. processedDueDate env (Some d) (Some tm) = Some (Date u)
           \<and> LocalTime env u = MakeDate (day - 1) (MakeTime h m 0 0)"
  using assms
  by (simp add: processedDueDate_with_time LocalTime_UTC Day_west msFromTime_midnight)

lemma Number_14_30: "map Number (js_split CHR '':'' ''14:30'') = [Some 14, Some 30]"
  by (simp add: Number_def isDigit_def decimal_def digitValue_def Let_def)

lemma MakeDay_values: "MakeDay 2025 1 10 = 20098" "MakeDay 2025 1 9 = 20097"
  by (simp_all add: MakeDay_def)

lemma sao_paulo_env_fields:
  "LocalTZA sao_paulo_env = - 10800000" "generatedId sao_paulo_env = 1"
  by (simp_all add: sao_paulo_env_def sample_env_fields msPerHour_def)

lemma authenticate_LocalTZA:
  "authenticate (env\<lparr>LocalTZA := z\<rparr>) header = authenticate env header"
  by (simp add: authenticate_def Let_def split: sum.splits)

lemma authenticate_sao_paulo: "authenticate sao_paulo_env headerA = Yields 10"
  unfolding sao_paulo_env_def by (simp add: authenticate_LocalTZA authenticate_headerA)

text \<open>
  C2 fails on a server whose local time is behind UTC. \<^verbatim>\<open>new Date("2025-01-10")\<close> is
  midnight UTC, which is 21:00 of 9 January there, and \<^verbatim>\<open>setHours(14, 30, 0)\<close> sets the
  local time of that local day: the task created with \<^verbatim>\<open>dueDate\<close> 2025-01-10 and
  \<^verbatim>\<open>dueTime\<close> 14:30 is stored as due on 9 January at 14:30 local time
  (2025-01-09T17:30:00Z), not on 10 January.
\<close>

theorem due_date_is_the_day_before_west_of_Greenwich:
  "map dueDate (tasks (snd (tasks_POST sao_paulo_env headerA due_body empty_db)))
     = [Some (Date 1736443800000)]
   \<and> LocalTime sao_paulo_env 1736443800000 = MakeDate (MakeDay 2025 1 9) (MakeTime 14 30 0 0)
   \<and> MakeDate (MakeDay 2025 1 9) (MakeTime 14 30 0 0)
       \<noteq> MakeDate (MakeDay 2025 1 10) (MakeTime 14 30 0 0)"
proof -
  have p: "processedDueDate sao_paulo_env (Some ''2025-01-10'') (Some ''14:30'')
             = Some (Date 1736443800000)"
    by (simp add: processedDueDate_with_time [OF _ Date_parse_2025_01_10 _ Number_14_30]
        LocalTime_def UTC_def Day_def MakeDate_def MakeTime_def msFromTime_def
        sao_paulo_env_fields msPerDay_def msPerHour_def msPerMinute_def msPerSecond_def)
  have "tasks_POST sao_paulo_env headerA due_body empty_db =
          (json 201 True
             (Task \<lparr>task_id = Some 1, title = Some ''Buy milk'', resume = Some ''grocery'',
                    description = None, categoryId = None, userId = 10,
                    dueDate = Some (Date 1736443800000), dueTime = Some ''14:30'',
                    priority = Some ''medium''\<rparr>),
           \<lparr>tasks = [\<lparr>task_id = Some 1, title = Some ''Buy milk'', resume = Some ''grocery'',
                    description = None, categoryId = None, userId = 10,
                    dueDate = Some (Date 1736443800000), dueTime = Some ''14:30'',
                    priority = Some ''medium''\<rparr>],
            categories = []\<rparr>)"
    by (simp add: tasks_POST_def tasks_POST_with_def authenticate_sao_paulo due_body_def
        buy_milk_def p truthy_def createTask_def or_undefined_def insertOne_task_def
        sao_paulo_env_fields empty_db_def Let_def)
  then show ?thesis
    by (simp add: LocalTime_def MakeDate_def MakeTime_def MakeDay_values sao_paulo_env_fields
        msPerDay_def msPerHour_def msPerMinute_def msPerSecond_def)
qed

section \<open>A due time without a due date\<close>

text \<open>
  C3 fails on the creation route: it has no check of \<^verbatim>\<open>dueTime\<close> against \<^verbatim>\<open>dueDate\<close>. For
  every request of an authenticated user with title, resume and a due time but no due date,
  and whatever function stands for \<^verbatim>\<open>createTask\<close>: the route gives \<^verbatim>\<open>createTask\<close> an object
  with the time and without a date; its answer is never 400; when \<^verbatim>\<open>createTask\<close> throws,
  the answer is 500; and when \<^verbatim>\<open>createTask\<close> returns a task, that task is stored and the
  answer is 201.
\<close>

theorem time_without_date_is_not_checked_by_the_route:
  assumes "authenticate env header = Yields u"
      and "truthy (req_title body)" and "truthy (req_resume body)"
      and "truthy (req_dueTime body)" and "\<not> truthy (req_dueDate body)"
      and "data = \<lparr>task_id = None, title = req_title body, resume = req_resume body,
                   description = req_description body, categoryId = None, userId = u,
                   dueDate = None, dueTime = req_dueTime body,
                   priority = req_priority body\<rparr>"
  shows "status (fst (tasks_POST_with create env header body db)) \<noteq> 400
         \<and> (\<forall>e. create data = Inl e \<longrightarrow>
                tasks_POST_with create env header body db = (internal_server_error e, db))
         \<and> (\<forall>t. create data = Inr t \<and> task_id t = None
                  \<and> Some (generatedId env) \<notin> set (map task_id (tasks db)) \<longrightarrow>
                status (fst (tasks_POST_with create env header body db)) = 201
                \<and> snd (tasks_POST_with create env header body db) =
                    db\<lparr>tasks := tasks db @ [t\<lparr>task_id := Some (generatedId env)\<rparr>]\<rparr>)"
proof (intro conjI allI impI)
  have "status (fst (tasks_POST_with create env header body db)) = 201
         \<or> status (fst (tasks_POST_with create env header body db)) = 500"
    using assms(1-3) by (rule tasks_POST_with_no_other_400)
  then show "status (fst (tasks_POST_with create env header body db)) \<noteq> 400"
    by auto
next
  fix e assume "create data = Inl e"
  then show "tasks_POST_with create env header body db = (internal_server_error e, db)"
    using assms
    by (simp add: tasks_POST_with_def processedDueDate_def or_undefined_def)
next
  fix t
  assume h: "create data = Inr t \<and> task_id t = None
               \<and> Some (generatedId env) \<notin> set (map task_id (tasks db))"
  then have r: "tasks_POST_with create env header body db =
                  (json 201 True
                     (Task (t\<lparr>task_id := Some (generatedId env),
                              dueTime := or_undefined (dueTime t)\<rparr>)),
                   db\<lparr>tasks := tasks db @ [t\<lparr>task_id := Some (generatedId env)\<rparr>]\<rparr>)"
    using assms
    by (simp add: tasks_POST_with_def processedDueDate_def or_undefined_def insertOne_task_def
        Let_def)
  show "status (fst (tasks_POST_with create env header body db)) = 201"
    unfolding r by (simp add: json_def)
  show "snd (tasks_POST_with create env header body db) =
          db\<lparr>tasks := tasks db @ [t\<lparr>task_id := Some (generatedId env)\<rparr>]\<rparr>"
    unfolding r by simp
qed

text \<open>
  The request \<open>time_only\<close>: with a \<^verbatim>\<open>createTask\<close> that returns its argument the task is
  stored with the time and without a date; with the \<^verbatim>\<open>createTask\<close> modelled from the spec
  the answer is 500. Neither is the validation error of the claim.
\<close>

theorem time_without_date_is_not_checked_by_the_route_witness:
  "authenticate sample_env headerA = Yields 10
   \<and> truthy (req_dueTime time_only) \<and> \<not> truthy (req_dueDate time_only)
   \<and> status (fst (tasks_POST_with Inr sample_env headerA time_only empty_db)) = 201
   \<and> snd (tasks_POST_with Inr sample_env headerA time_only empty_db) =
       \<lparr>tasks = [\<lparr>task_id = Some 1, title = Some ''Buy milk'', resume = Some ''grocery'',
                 description = None, categoryId = None, userId = 10, dueDate = None,
                 dueTime = Some ''14:30'', priority = None\<rparr>],
        categories = []\<rparr>
   \<and> tasks_POST sample_env headerA time_only empty_db =
       (internal_server_error (ValidationError ''dueDate''), empty_db)
   \<and> status (fst (tasks_POST sample_env headerA time_only empty_db)) = 500"
proof -
  have h: "truthy (req_title time_only)" "truthy (req_resume time_only)"
    "truthy (req_dueTime time_only)" "\<not> truthy (req_dueDate time_only)"
    by (simp_all add: time_only_def buy_milk_def truthy_def)
  let ?data = "\<lparr>task_id = None, title = req_title time_only, resume = req_resume time_only,
                 description = req_description time_only, categoryId = None, userId = 10,
                 dueDate = None, dueTime = req_dueTime time_only,
                 priority = req_priority time_only\<rparr>"
  have c: "createTask ?data = Inl (ValidationError ''dueDate'')"
    by (simp add: createTask_def time_only_def buy_milk_def truthy_def)
  from time_without_date_is_not_checked_by_the_route
         [OF authenticate_headerA h refl, of Inr empty_db]
       time_without_date_is_not_checked_by_the_route
         [OF authenticate_headerA h refl, of createTask empty_db]
  show ?thesis
    using h c authenticate_headerA
    by (simp add: tasks_POST_def sample_env_fields empty_db_def time_only_def buy_milk_def
        status_values)
qed

text \<open>The form does make the check, and sends nothing when it fails.\<close>

lemma handleSaveTask_time_without_date:
  assumes "timeInput f \<noteq> []" and "dateInput f = []"
  shows "''dateInput'' \<in> set (newErrors f)" and "handleSaveTask f = Inl (newErrors f)"
  using assms by (simp_all add: newErrors_def handleSaveTask_def)

section \<open>Deleting a category that tasks refer to\<close>

text \<open>Deleting a category writes to the categories only.\<close>

lemma categories_id_DELETE_tasks:
  "tasks (snd (categories_id_DELETE env header params_id db)) = tasks db"
  by (simp add: categories_id_DELETE_def split: step.splits sum.splits prod.splits)

text \<open>The creation route stores no category reference, whatever the body holds.\<close>

lemma tasks_POST_categoryId:
  assumes "status (fst (tasks_POST env header body db)) = 201"
  shows "\<exists>t. snd (tasks_POST env header body db) = db\<lparr>tasks := tasks db @ [t]\<rparr>
           \<and> categoryId t = None"
proof (cases "authenticate env header")
  case (Throws e)
  with assms show ?thesis
    by (simp add: tasks_POST_def handlers_Throws status_values)
next
  case (Returns r)
  with assms show ?thesis
    by (simp add: tasks_POST_def handlers_Returns authenticate_Returns [OF Returns] status_values)
next
  case (Yields u)
  with assms show ?thesis
    by (auto simp: tasks_POST_def tasks_POST_with_def createTask_def insertOne_task_def
        status_values json_def Let_def split: if_splits option.splits)
qed

lemma referring_db_value:
  "referring_db =
     \<lparr>tasks = [\<lparr>task_id = Some 2, title = Some ''Buy milk'', resume = Some ''grocery'',
                description = None, categoryId = None, userId = 10, dueDate = None,
                dueTime = None, priority = Some ''medium''\<rparr>],
      categories = [\<lparr>cat_id = Some 1, name = Some ''Work'', cat_description = None,
                     cat_userId = 10\<rparr>]\<rparr>"
  by (simp add: referring_db_def referring_def tasks_POST_def tasks_POST_with_def
      sample_env2_def authenticate_generatedId authenticate_headerA buy_milk_def truthy_def
      createTask_def processedDueDate_def or_undefined_def insertOne_task_def work_db_value
      Let_def)

lemma dangling_db_value:
  "dangling_db =
     \<lparr>tasks = [\<lparr>task_id = Some 2, title = Some ''Buy milk'', resume = Some ''grocery'',
                description = None, categoryId = None, userId = 10, dueDate = None,
                dueTime = None, priority = Some ''medium''\<rparr>],
      categories = []\<rparr>"
  by (simp add: dangling_db_def
      categories_id_DELETE_Yields [OF authenticate_headerA sample_ObjectId_values(1)]
      referring_db_value)

text \<open>
  C6 fails in its second part. User A creates the category Work, then a task whose body
  refers to it, then deletes the category. The deletion leaves the tasks as they were, but
  the task never held the reference: line 73 of the creation route does not read
  \<^verbatim>\<open>categoryId\<close> from the body, so the task listed afterwards has no \<^verbatim>\<open>categoryId\<close>.
\<close>

theorem created_task_has_no_categoryId:
  "req_categoryId referring = Some id1
   \<and> map cat_id (categories work_db) = [Some 1] \<and> ObjectId sample_env id1 = Inr 1
   \<and> status (fst (tasks_POST sample_env2 headerA referring work_db)) = 201
   \<and> status (fst (categories_id_DELETE sample_env headerA id1 referring_db)) = 200
   \<and> tasks dangling_db = tasks referring_db
   \<and> map (\<lambda>v. categoryId (doc v)) (returned_tasks (fst (tasks_GET sample_env headerA dangling_db)))
       = [None]"
proof -
  have "status (fst (tasks_POST sample_env2 headerA referring work_db)) = 201"
    by (simp add: referring_def tasks_POST_def tasks_POST_with_def
      sample_env2_def authenticate_generatedId authenticate_headerA buy_milk_def truthy_def
      createTask_def processedDueDate_def or_undefined_def insertOne_task_def work_db_value
      Let_def json_def)
  moreover have "status (fst (categories_id_DELETE sample_env headerA id1 referring_db)) = 200"
    by (simp add: categories_id_DELETE_Yields [OF authenticate_headerA sample_ObjectId_values(1)]
      referring_db_value json_def)
  moreover have "map (\<lambda>v. categoryId (doc v))
                   (returned_tasks (fst (tasks_GET sample_env headerA dangling_db))) = [None]"
    by (simp add: tasks_GET_def authenticate_headerA returned_tasks_def json_def find_tasks_def
        dangling_db_value withOverdue_def Let_def)
  ultimately show ?thesis
    by (simp add: referring_def work_db_value sample_ObjectId_values dangling_db_value
        referring_db_value)
qed

end
